theory Spec2Isabelle
  imports Complex_Main "HOL-Library.Char_ord" "HOL-Library.List_Lexorder"
begin

section \<open>JavaScript values used by the scheduling code\<close>

text \<open>
  A string is the list of its code units, all taken to be below 256. Times of day are
  stored as strings (\<^verbatim>\<open>"09:00"\<close>) and the code compares them with the string operators
  \<^verbatim>\<open><\<close>, \<^verbatim>\<open>></\<close> (JavaScript) and \<^verbatim>\<open>$lt\<close>, \<^verbatim>\<open>$gt\<close> (MongoDB, simple collation): both
  compare code units lexicographically, which on \<open>string\<close> is the order of
  \<open>HOL-Library.List_Lexorder\<close> over \<open>HOL-Library.Char_ord\<close>.

  A \<^verbatim>\<open>Number\<close> of a schema is a rational: the schemas bound these fields (\<^verbatim>\<open>min\<close>,
  \<^verbatim>\<open>max\<close>) but do not ask for whole numbers, so 22.5 is a consultation duration. The
  arithmetic of the model is exact. That is the arithmetic of the machine on whole
  numbers and on halves, quarters and so on of this size; other fractions are rounded by
  the machine, and what the code computes from them is outside the model.

  A \<^verbatim>\<open>Date\<close> is a host object. It is modelled by the three observations the code makes
  of it: \<^verbatim>\<open>getTime()\<close> (what \<^verbatim>\<open><\<close> on two dates and a MongoDB equality match compare),
  \<^verbatim>\<open>getDay()\<close> and the calendar part of \<^verbatim>\<open>toISOString()\<close>, that is
  \<^verbatim>\<open>toISOString().split("T")[0]\<close>.
\<close>

type_synonym number = rat

record jsDate =
  getTime :: int
  getDay :: int
  toISODate :: string

text \<open>\<^verbatim>\<open>s.split(":")\<close>: the pieces of \<open>s\<close> between the separators, at least one piece.\<close>

fun split :: "char \<Rightarrow> string \<Rightarrow> string list" where
  "split sep [] = [[]]"
| "split sep (c # cs) =
     (if c = sep then [] # split sep cs
      else (case split sep cs of
              [] \<Rightarrow> [[c]]
            | p # ps \<Rightarrow> (c # p) # ps))"

definition isDigit :: "char \<Rightarrow> bool" where
  "isDigit c = (CHR ''0'' \<le> c \<and> c \<le> CHR ''9'')"

definition digitValue :: "char \<Rightarrow> int" where
  "digitValue c = int (of_char c) - 48"

text \<open>
  \<^verbatim>\<open>s.trim()\<close>, the setter of a schema string declared \<^verbatim>\<open>trim: true\<close>: white space
  (tab, line feed, vertical tab, form feed, carriage return, space, no-break space) is
  removed from both ends.
\<close>

definition isWhiteSpace :: "char \<Rightarrow> bool" where
  "isWhiteSpace c =
     (c \<in> set [CHR 0x09, CHR 0x0A, CHR 0x0B, CHR 0x0C, CHR 0x0D, CHR 0x20, CHR 0xA0])"

definition trim :: "string \<Rightarrow> string" where
  "trim s = rev (dropWhile isWhiteSpace (rev (dropWhile isWhiteSpace s)))"

text \<open>
  \<^verbatim>\<open>Number(s)\<close> on a string: white space around it is dropped, the empty string is
  0, a string of decimal digits is its value, and \<open>None\<close> stands for \<^verbatim>\<open>NaN\<close>. The
  schema's pattern for times of day, \<^verbatim>\<open>/^([01]?[0-9]|2[0-3]):[0-5][0-9]$/\<close>, leaves
  only digit strings between the colons, and on those this is what JavaScript computes.
  On other strings it is not: JavaScript also reads signs, decimal points, exponents,
  hexadecimal, octal and binary literals and \<^verbatim>\<open>"Infinity"\<close>, all of which are \<^verbatim>\<open>NaN\<close>
  here.
\<close>

definition Number :: "string \<Rightarrow> int option" where
  "Number s =
     (if list_all isDigit (trim s)
      then Some (foldl (\<lambda>acc c. 10 * acc + digitValue c) 0 (trim s))
      else None)"

text \<open>
  \<^verbatim>\<open>const [h, m] = t.split(":").map(Number); h * 60 + m\<close>: a missing second piece is
  \<^verbatim>\<open>undefined\<close>, and arithmetic on \<^verbatim>\<open>undefined\<close> or \<^verbatim>\<open>NaN\<close> is \<^verbatim>\<open>NaN\<close>.
\<close>

definition totalMinutes :: "string \<Rightarrow> int option" where
  "totalMinutes t =
     (case map Number (split CHR '':'' t) of
        Some h # Some m # _ \<Rightarrow> Some (h * 60 + m)
      | _ \<Rightarrow> None)"

text \<open>
  \<^verbatim>\<open>x.toString()\<close>: a minus sign for a negative number, the decimal digits of the whole
  part and, for a number that is not whole, a point and the decimal digits of the
  fraction. JavaScript prints the shortest decimal that reads back as the same number;
  that is this text when the decimal expansion ends within 15 significant digits (as for
  22.5), and the model is exact for those numbers only. Magnitudes from \<^verbatim>\<open>1e21\<close> on,
  which JavaScript prints with an exponent, do not occur.
\<close>

fun digits :: "nat \<Rightarrow> string" where
  "digits n =
     (if n < 10 then [''0123456789'' ! n]
      else digits (n div 10) @ [''0123456789'' ! (n mod 10)])"

fun fractionDigits :: "nat \<Rightarrow> rat \<Rightarrow> string" where
  "fractionDigits 0 f = []"
| "fractionDigits (Suc n) f =
     (if f = 0 then []
      else ''0123456789'' ! nat \<lfloor>f * 10\<rfloor>
             # fractionDigits n (f * 10 - of_int \<lfloor>f * 10\<rfloor>))"

definition toString :: "number \<Rightarrow> string" where
  "toString x =
     (let whole = \<lfloor>\<bar>x\<bar>\<rfloor>; fraction = \<bar>x\<bar> - of_int whole
      in (if x < 0 then ''-'' else [])
         @ digits (nat whole)
         @ (if fraction = 0 then [] else CHR ''.'' # fractionDigits 17 fraction))"

text \<open>\<^verbatim>\<open>s.padStart(n, "0")\<close>.\<close>

definition padStart :: "nat \<Rightarrow> char \<Rightarrow> string \<Rightarrow> string" where
  "padStart n pad s = replicate (n - length s) pad @ s"

text \<open>
  The remainder \<^verbatim>\<open>a % b\<close> for \<open>b \<noteq> 0\<close>: \<open>a\<close> less \<open>b\<close> times the quotient rounded towards
  zero, so that its sign is the sign of \<open>a\<close>.
\<close>

definition jsRem :: "number \<Rightarrow> number \<Rightarrow> number" where
  "jsRem a b =
     a - b * of_int (if 0 \<le> a / b then \<lfloor>a / b\<rfloor> else \<lceil>a / b\<rceil>)"

section \<open>The dentist's schedule (models/Dentist.js)\<close>

text \<open>The schema's \<^verbatim>\<open>match\<close> validator of a time of day:
  \<^verbatim>\<open>/^([01]?[0-9]|2[0-3]):[0-5][0-9]$/\<close>.\<close>

fun matchesTimePattern :: "string \<Rightarrow> bool" where
  "matchesTimePattern [h, c, m1, m0] =
     (isDigit h \<and> c = CHR '':'' \<and> CHR ''0'' \<le> m1 \<and> m1 \<le> CHR ''5'' \<and> isDigit m0)"
| "matchesTimePattern [h1, h0, c, m1, m0] =
     ((((h1 = CHR ''0'' \<or> h1 = CHR ''1'') \<and> isDigit h0)
        \<or> (h1 = CHR ''2'' \<and> CHR ''0'' \<le> h0 \<and> h0 \<le> CHR ''3''))
      \<and> c = CHR '':'' \<and> CHR ''0'' \<le> m1 \<and> m1 \<le> CHR ''5'' \<and> isDigit m0)"
| "matchesTimePattern _ = False"

record availabilitySlot =
  dayOfWeek :: number
  startTime :: string
  endTime :: string
  isActive :: bool

record timeOff =
  startDate :: jsDate
  endDate :: jsDate
  isApproved :: bool

record schedule =
  regularHours :: "availabilitySlot list"
  timeOff :: "timeOff list"
  consultationDuration :: number
  bufferTime :: number

datatype dentistStatus = Active | Inactive | OnLeave | Suspended

record dentist =
  dentistOid :: nat
  dentistStatus :: dentistStatus
  schedule :: schedule

text \<open>The callback of \<^verbatim>\<open>timeOff.some(...)\<close>, the same in both methods.\<close>

definition coversDate :: "string \<Rightarrow> timeOff \<Rightarrow> bool" where
  "coversDate requestDate t =
     (requestDate \<ge> toISODate (startDate t) \<and> requestDate \<le> toISODate (endDate t)
      \<and> isApproved t)"

definition isAvailableAt :: "dentist \<Rightarrow> jsDate \<Rightarrow> string \<Rightarrow> string \<Rightarrow> bool" where
  "isAvailableAt d date start end =
     (case find (\<lambda>slot. dayOfWeek slot = of_int (getDay date) \<and> isActive slot)
             (regularHours (schedule d)) of
        None \<Rightarrow> False
      | Some hours \<Rightarrow>
          if start < availabilitySlot.startTime hours \<or> end > availabilitySlot.endTime hours
          then False
          else \<not> list_ex (coversDate (toISODate date)) (timeOff (schedule d)))"

text \<open>
  \<^verbatim>\<open>Math.floor(minutes / 60)\<close> and \<^verbatim>\<open>minutes % 60\<close>, each printed and padded to two
  places, with a colon between them.
\<close>

definition timeString :: "number \<Rightarrow> string" where
  "timeString minutes =
     padStart 2 CHR ''0'' (toString (of_int \<lfloor>minutes / 60\<rfloor>)) @ '':''
       @ padStart 2 CHR ''0'' (toString (jsRem minutes 60))"

text \<open>
  The \<^verbatim>\<open>for\<close> loop of \<^verbatim>\<open>getAvailableSlots\<close>. Nothing in the loop bounds the number of
  rounds, so it is a partial function: \<open>None\<close> is a loop that never ends.
\<close>

partial_function (option) slotLoop ::
  "number \<Rightarrow> number \<Rightarrow> number \<Rightarrow> number \<Rightarrow> string list \<Rightarrow> string list option" where
  "slotLoop minutes duration totalSlotTime endMinutes slots =
     (if minutes + duration \<le> endMinutes
      then slotLoop (minutes + totalSlotTime) duration totalSlotTime endMinutes
             (slots @ [timeString minutes])
      else Some slots)"

declare slotLoop.simps [code]

definition getAvailableSlots :: "dentist \<Rightarrow> jsDate \<Rightarrow> string list option" where
  "getAvailableSlots d date =
     (case find (\<lambda>slot. dayOfWeek slot = of_int (getDay date) \<and> isActive slot)
             (regularHours (schedule d)) of
        None \<Rightarrow> Some []
      | Some hours \<Rightarrow>
          if list_ex (coversDate (toISODate date)) (timeOff (schedule d)) then Some []
          else
            let duration = consultationDuration (schedule d);
                buffer = bufferTime (schedule d);
                totalSlotTime = duration + buffer
            in (case (totalMinutes (availabilitySlot.startTime hours),
                      totalMinutes (availabilitySlot.endTime hours)) of
                  (Some startMinutes, Some endMinutes) \<Rightarrow>
                    slotLoop (of_int startMinutes) duration totalSlotTime (of_int endMinutes) []
                | _ \<Rightarrow> Some []))"

text \<open>
  The specification's reading of a time of day, against which the code's parser and
  printer are compared: \<open>zeroPaddedHHMM\<close> is two decimal digits of the hour, a colon and
  two decimal digits of the minute; \<open>specMinutesFromMidnight\<close> is sixty times the hour
  before the colon plus the minute behind it, read off the characters; a time is
  \<open>zeroPadded\<close> when the schema accepts it and its hour has both digits.
\<close>

definition zeroPaddedHHMM :: "nat \<Rightarrow> nat \<Rightarrow> string" where
  "zeroPaddedHHMM h m =
     [''0123456789'' ! (h div 10), ''0123456789'' ! (h mod 10), CHR '':'',
      ''0123456789'' ! (m div 10), ''0123456789'' ! (m mod 10)]"

definition digitNat :: "char \<Rightarrow> nat" where
  "digitNat c = of_char c - 48"

fun specMinutesFromMidnight :: "string \<Rightarrow> nat" where
  "specMinutesFromMidnight [h, c, m1, m0] =
     60 * digitNat h + (10 * digitNat m1 + digitNat m0)"
| "specMinutesFromMidnight [h1, h0, c, m1, m0] =
     60 * (10 * digitNat h1 + digitNat h0) + (10 * digitNat m1 + digitNat m0)"
| "specMinutesFromMidnight _ = 0"

definition zeroPadded :: "string \<Rightarrow> bool" where
  "zeroPadded t = (length t = 5 \<and> matchesTimePattern t)"

section \<open>Appointments (models/Appointment.js)\<close>

text \<open>
  An \<^verbatim>\<open>ObjectId\<close> is an opaque identifier; as a JavaScript value it is always truthy.
\<close>

type_synonym objectId = nat

datatype status =
  Scheduled | Confirmed | InProgress | Completed | Cancelled | NoShow | Rescheduled

datatype actor = ByPatient | ByDentist | ByStaff | BySystem

record treatment =
  treatmentName :: string
  treatmentDuration :: number
  treatmentCost :: "number option"

record cost =
  estimated :: "number option"
  actual :: "number option"
  insuranceCovered :: number
  patientPayment :: "number option"

record cancellation =
  reason :: "string option"
  cancelledBy :: actor
  cancelledAt :: jsDate
  refundAmount :: number

record rescheduling =
  originalDate :: jsDate
  originalTime :: string
  reason :: "string option"
  rescheduledBy :: actor
  rescheduledAt :: jsDate

text \<open>
  The appointment document. \<open>oid\<close> is \<^verbatim>\<open>_id\<close>; an \<open>appointmentId\<close> that is not set is
  the empty string (both are falsy); a \<open>duration\<close> that is not set or is \<^verbatim>\<open>NaN\<close> is
  \<open>None\<close>; a nested \<open>cancellation\<close> or \<open>rescheduling\<close> object that was never written is
  \<open>None\<close>. The fields \<^verbatim>\<open>type\<close>, \<^verbatim>\<open>priority\<close>, \<^verbatim>\<open>reason\<close>, \<^verbatim>\<open>symptoms\<close>, \<^verbatim>\<open>notes\<close>,
  \<^verbatim>\<open>payment\<close>, \<^verbatim>\<open>reminders\<close> and \<^verbatim>\<open>followUp\<close> are not read or written by cancel,
  reschedule and confirm and are left out (of a general update that names them only the
  key is kept), as is \<^verbatim>\<open>updatedAt\<close>, which Mongoose maintains itself.
\<close>

record appointment =
  oid :: objectId
  appointmentId :: string
  patient :: objectId
  dentist :: objectId
  appointmentDate :: jsDate
  startTime :: string
  endTime :: string
  duration :: "number option"
  status :: status
  treatments :: "treatment list"
  cost :: cost
  cancellation :: "cancellation option"
  rescheduling :: "rescheduling option"
  createdAt :: jsDate

text \<open>The two collections the controllers read and write.\<close>

record db =
  appointments :: "appointment list"
  dentists :: "dentist list"

text \<open>
  The clock: \<open>now\<close> is \<^verbatim>\<open>new Date()\<close> and \<open>today\<close> is that date after
  \<^verbatim>\<open>setHours(0, 0, 0, 0)\<close>.
\<close>

record clock =
  now :: jsDate
  today :: jsDate

definition findById :: "appointment list \<Rightarrow> objectId \<Rightarrow> appointment option" where
  "findById docs i = find (\<lambda>a. oid a = i) docs"

definition findDentistById :: "dentist list \<Rightarrow> objectId \<Rightarrow> dentist option" where
  "findDentistById docs i = find (\<lambda>d. dentistOid d = i) docs"

text \<open>
  The validators the schema declares on the fields of the model: \<^verbatim>\<open>required\<close> (an
  empty string and a missing number fail it), \<^verbatim>\<open>match\<close> and \<^verbatim>\<open>min\<close>. An \<^verbatim>\<open>enum\<close> holds
  by the type of the field. The fields left out of the model are taken to be valid.
\<close>

definition atLeast0 :: "number option \<Rightarrow> bool" where
  "atLeast0 v = (case v of None \<Rightarrow> True | Some x \<Rightarrow> 0 \<le> x)"

definition validTreatment :: "treatment \<Rightarrow> bool" where
  "validTreatment t =
     (treatmentName t \<noteq> [] \<and> 15 \<le> treatmentDuration t \<and> atLeast0 (treatmentCost t))"

definition validCost :: "cost \<Rightarrow> bool" where
  "validCost c =
     (atLeast0 (estimated c) \<and> atLeast0 (actual c) \<and> 0 \<le> insuranceCovered c
      \<and> atLeast0 (patientPayment c))"

definition validDuration :: "number option \<Rightarrow> bool" where
  "validDuration v = (case v of None \<Rightarrow> False | Some x \<Rightarrow> 15 \<le> x)"

definition validCancellation :: "cancellation option \<Rightarrow> bool" where
  "validCancellation v = (case v of None \<Rightarrow> True | Some c \<Rightarrow> 0 \<le> refundAmount c)"

definition validate :: "appointment \<Rightarrow> bool" where
  "validate a =
     (appointmentId a \<noteq> []
      \<and> matchesTimePattern (appointment.startTime a)
      \<and> matchesTimePattern (appointment.endTime a)
      \<and> validDuration (duration a)
      \<and> list_all validTreatment (treatments a)
      \<and> validCost (cost a)
      \<and> validCancellation (cancellation a))"

text \<open>
  The first pre-save hook: a document without \<open>appointmentId\<close> gets
  \<^verbatim>\<open>APT\<close>, today's date without dashes and the number of documents created today plus
  one, padded to three places.
\<close>

definition generateAppointmentId ::
  "clock \<Rightarrow> appointment list \<Rightarrow> appointment \<Rightarrow> appointment" where
  "generateAppointmentId clk docs a =
     (if appointmentId a = [] then
        let today' = filter (\<lambda>c. c \<noteq> CHR ''-'') (take 10 (toISODate (now clk)));
            count = length (filter (\<lambda>x. getTime (createdAt x) \<ge> getTime (today clk)) docs)
        in a\<lparr>appointmentId :=
               ''APT'' @ today' @ padStart 3 CHR ''0'' (toString (of_nat count + 1))\<rparr>
      else a)"

text \<open>The second pre-save hook: the duration is recomputed from the two times.\<close>

definition calculateDuration :: "appointment \<Rightarrow> appointment" where
  "calculateDuration a =
     (if appointment.startTime a \<noteq> [] \<and> appointment.endTime a \<noteq> [] then
        a\<lparr>duration :=
            (case (totalMinutes (appointment.startTime a), totalMinutes (appointment.endTime a)) of
               (Some startTotalMinutes, Some endTotalMinutes) \<Rightarrow>
                 Some (of_int (endTotalMinutes - startTotalMinutes))
             | _ \<Rightarrow> None)\<rparr>
      else a)"

text \<open>
  A call that may throw: \<^verbatim>\<open>save()\<close> and an update with \<^verbatim>\<open>runValidators: true\<close> reject
  with a validation error, and then nothing is stored.
\<close>

datatype 'a promise = Resolves 'a | RejectsValidationError

text \<open>
  \<^verbatim>\<open>save()\<close>: Mongoose validates the document first; then the pre-save hooks of the
  schema run in the order they were registered; then the document replaces the stored
  one with the same \<^verbatim>\<open>_id\<close>. So the first hook finds an \<open>appointmentId\<close> on every document
  it sees, since a document without one has failed \<^verbatim>\<open>required\<close> before.
\<close>

definition replaceDoc :: "appointment \<Rightarrow> appointment list \<Rightarrow> appointment list" where
  "replaceDoc a docs = map (\<lambda>x. if oid x = oid a then a else x) docs"

definition save :: "clock \<Rightarrow> db \<Rightarrow> appointment \<Rightarrow> appointment promise \<times> db" where
  "save clk store a =
     (if \<not> validate a then (RejectsValidationError, store)
      else
        let a' = calculateDuration (generateAppointmentId clk (appointments store) a)
        in (Resolves a', store\<lparr>appointments := replaceDoc a' (appointments store)\<rparr>))"

text \<open>
  \<^verbatim>\<open>checkConflict\<close>: the query is a conjunction of its entries, \<^verbatim>\<open>findOne\<close> returns the
  first document that matches or \<^verbatim>\<open>null\<close>; \<open>excludeId = None\<close> is the default
  \<^verbatim>\<open>null\<close>. The match on \<^verbatim>\<open>appointmentDate\<close> is an equality of dates, that is of their
  \<^verbatim>\<open>getTime()\<close>, and \<^verbatim>\<open>$lt\<close>, \<^verbatim>\<open>$gt\<close> compare the stored strings.
\<close>

definition checkConflict ::
  "appointment list \<Rightarrow> objectId \<Rightarrow> jsDate \<Rightarrow> string \<Rightarrow> string \<Rightarrow> objectId option
     \<Rightarrow> appointment option" where
  "checkConflict docs dentistId date start end excludeId =
     find (\<lambda>a. appointment.dentist a = dentistId
              \<and> getTime (appointmentDate a) = getTime date
              \<and> status a \<noteq> Cancelled \<and> status a \<noteq> NoShow
              \<and> (appointment.startTime a < end \<and> appointment.endTime a > start)
              \<and> (case excludeId of None \<Rightarrow> True | Some x \<Rightarrow> oid a \<noteq> x))
       docs"

text \<open>
  The two methods assign and save. \<^verbatim>\<open>cancellation.reason\<close> and \<^verbatim>\<open>rescheduling.reason\<close>
  are declared \<^verbatim>\<open>trim: true\<close>, so the reason is stored trimmed; a reason that is
  \<^verbatim>\<open>undefined\<close> stays so.
\<close>

definition cancel ::
  "clock \<Rightarrow> db \<Rightarrow> appointment \<Rightarrow> string option \<Rightarrow> actor \<Rightarrow> number
     \<Rightarrow> appointment promise \<times> db" where
  "cancel clk store a reason' cancelledBy' refundAmount' =
     save clk store
       (a\<lparr>status := Cancelled,
          cancellation := Some \<lparr>cancellation.reason = map_option trim reason',
                                cancelledBy = cancelledBy',
                                cancelledAt = now clk, refundAmount = refundAmount'\<rparr>\<rparr>)"

definition reschedule ::
  "clock \<Rightarrow> db \<Rightarrow> appointment \<Rightarrow> jsDate \<Rightarrow> string \<Rightarrow> string \<Rightarrow> string option \<Rightarrow> actor
     \<Rightarrow> appointment promise \<times> db" where
  "reschedule clk store a newDate newStartTime newEndTime reason' rescheduledBy' =
     save clk store
       (a\<lparr>rescheduling := Some \<lparr>originalDate = appointmentDate a,
                                originalTime = appointment.startTime a,
                                rescheduling.reason = map_option trim reason',
                                rescheduledBy = rescheduledBy',
                                rescheduledAt = now clk\<rparr>,
          appointmentDate := newDate,
          startTime := newStartTime,
          endTime := newEndTime,
          status := Rescheduled\<rparr>)"

section \<open>The appointment controllers\<close>

text \<open>
  What a handler reads of the request besides its parameters: \<open>patientOnly\<close> is the flag
  set by \<^verbatim>\<open>canManageAppointments\<close>, \<open>role\<close> is \<^verbatim>\<open>req.user.role\<close>, and \<open>userPatient\<close> is the
  \<^verbatim>\<open>_id\<close> of the result of \<^verbatim>\<open>Patient.findOne({ userId: req.user._id })\<close>, if any.
\<close>

datatype role = RoleAdmin | RoleDentist | RoleStaff | RolePatient

record request =
  patientOnly :: bool
  role :: role
  userPatient :: "objectId option"

text \<open>
  What a handler answers: the JSON responses of utils/response.js with their data
  (a document or \<^verbatim>\<open>null\<close>), message and status code, or the exception that leaves the
  handler: the type error of a method called on \<^verbatim>\<open>null\<close>, or the validation error of a
  rejected save or update.
\<close>

datatype response =
  SuccessResponse "appointment option" string nat
| ErrorResponse string nat
| ThrowsTypeError
| ThrowsValidationError

definition successResponse :: "appointment option \<Rightarrow> string \<Rightarrow> response" where
  "successResponse data message = SuccessResponse data message 200"

definition errorResponse :: "string \<Rightarrow> nat \<Rightarrow> response" where
  "errorResponse message statusCode = ErrorResponse message statusCode"

definition notFoundResponse :: "string \<Rightarrow> response" where
  "notFoundResponse resource = ErrorResponse (resource @ '' not found'') 404"

definition conflictResponse :: "string \<Rightarrow> response" where
  "conflictResponse message = ErrorResponse message 409"

text \<open>\<^verbatim>\<open>!patient || appointment.patient.toString() !== patient._id.toString()\<close>\<close>

definition notOwnAppointment :: "request \<Rightarrow> appointment \<Rightarrow> bool" where
  "notOwnAppointment req a =
     (case userPatient req of None \<Rightarrow> True | Some p \<Rightarrow> patient a \<noteq> p)"

definition actorOf :: "request \<Rightarrow> actor" where
  "actorOf req =
     (if patientOnly req then ByPatient
      else if role req = RoleDentist then ByDentist
      else ByStaff)"

definition cancelAppointment ::
  "clock \<Rightarrow> request \<Rightarrow> objectId \<Rightarrow> string option \<Rightarrow> number option \<Rightarrow> db \<Rightarrow> response \<times> db" where
  "cancelAppointment clk req id' reason' refundAmount' store =
     (case findById (appointments store) id' of
        None \<Rightarrow> (notFoundResponse ''Appointment'', store)
      | Some a \<Rightarrow>
          if patientOnly req \<and> notOwnAppointment req a
          then (errorResponse ''Access denied'' 403, store)
          else if status a = Cancelled
          then (errorResponse ''Appointment is already cancelled'' 400, store)
          else if status a = Completed
          then (errorResponse ''Cannot cancel completed appointment'' 400, store)
          else
            (case cancel clk store a reason' (actorOf req)
                    (case refundAmount' of None \<Rightarrow> 0 | Some r \<Rightarrow> r) of
               (RejectsValidationError, store') \<Rightarrow> (ThrowsValidationError, store')
             | (Resolves a', store') \<Rightarrow>
                 (successResponse (Some a') ''Appointment cancelled successfully'', store')))"

definition rescheduleAppointment ::
  "clock \<Rightarrow> request \<Rightarrow> objectId \<Rightarrow> jsDate \<Rightarrow> string \<Rightarrow> string \<Rightarrow> string option \<Rightarrow> db
     \<Rightarrow> response \<times> db" where
  "rescheduleAppointment clk req id' newDate newStartTime newEndTime reason' store =
     (case findById (appointments store) id' of
        None \<Rightarrow> (notFoundResponse ''Appointment'', store)
      | Some a \<Rightarrow>
          if patientOnly req \<and> notOwnAppointment req a
          then (errorResponse ''Access denied'' 403, store)
          else if status a = Cancelled \<or> status a = Completed
          then (errorResponse ''Cannot reschedule cancelled or completed appointment'' 400, store)
          else if getTime newDate < getTime (today clk)
          then (errorResponse ''New appointment date cannot be in the past'' 400, store)
          else
            (case findDentistById (dentists store) (appointment.dentist a) of
               None \<Rightarrow> (ThrowsTypeError, store)
             | Some d \<Rightarrow>
                 if \<not> isAvailableAt d newDate newStartTime newEndTime
                 then (errorResponse ''Dentist is not available at the requested time'' 409, store)
                 else
                   (case checkConflict (appointments store) (appointment.dentist a) newDate
                           newStartTime newEndTime (Some id') of
                      Some conflict \<Rightarrow>
                        (conflictResponse
                           ''New appointment time conflicts with existing appointment'', store)
                    | None \<Rightarrow>
                        (case reschedule clk store a newDate newStartTime newEndTime reason'
                                (actorOf req) of
                           (RejectsValidationError, store') \<Rightarrow> (ThrowsValidationError, store')
                         | (Resolves a', store') \<Rightarrow>
                             (successResponse (Some a') ''Appointment rescheduled successfully'',
                              store')))))"

text \<open>
  \<^verbatim>\<open>findByIdAndUpdate(id, update, { new: true, runValidators: true })\<close>: the validators
  of the paths the update sets run first (\<open>valid\<close> is their verdict) and a failure
  rejects the call; otherwise the stored document is changed in place, no pre-save hook
  runs, and the changed document is returned, or \<^verbatim>\<open>null\<close> when no document has the id.
\<close>

definition findByIdAndUpdate ::
  "db \<Rightarrow> objectId \<Rightarrow> bool \<Rightarrow> (appointment \<Rightarrow> appointment)
     \<Rightarrow> appointment option promise \<times> db" where
  "findByIdAndUpdate store id' valid change =
     (if \<not> valid then (RejectsValidationError, store)
      else
        (case findById (appointments store) id' of
           None \<Rightarrow> (Resolves None, store)
         | Some a \<Rightarrow>
             (Resolves (Some (change a)),
              store\<lparr>appointments := replaceDoc (change a) (appointments store)\<rparr>)))"


text \<open>
  The body of a general update. A field that is \<open>None\<close> is absent from the body. Of the
  keys of fields outside the model only the names are kept (\<open>otherKeys\<close>, for the check
  of what a patient may change) and whether their values pass the validators of their
  paths (\<open>otherValid\<close>). Dotted keys into \<open>cost\<close>, \<open>cancellation\<close> and \<open>rescheduling\<close> are
  not modelled.
\<close>

record updates =
  appointmentDate :: "jsDate option"
  startTime :: "string option"
  endTime :: "string option"
  dentist :: "objectId option"
  patient :: "objectId option"
  status :: "status option"
  duration :: "number option"
  treatments :: "treatment list option"
  cost :: "cost option"
  cancellation :: "cancellation option"
  rescheduling :: "rescheduling option"
  otherKeys :: "string list"
  otherValid :: bool

text \<open>Truthiness of a string that may be absent (\<^verbatim>\<open>undefined\<close> and \<^verbatim>\<open>""\<close> are falsy),
  and \<^verbatim>\<open>v || w\<close> on strings.\<close>

definition truthy :: "string option \<Rightarrow> bool" where
  "truthy v = (case v of None \<Rightarrow> False | Some s \<Rightarrow> s \<noteq> [])"

definition orElse :: "string option \<Rightarrow> string \<Rightarrow> string" where
  "orElse v w = (case v of None \<Rightarrow> w | Some s \<Rightarrow> if s \<noteq> [] then s else w)"

text \<open>\<^verbatim>\<open>Object.keys(updates)\<close> after the three \<^verbatim>\<open>delete\<close> statements.\<close>

definition updateKeys :: "updates \<Rightarrow> string list" where
  "updateKeys u =
     (if updates.appointmentDate u \<noteq> None then [''appointmentDate''] else [])
     @ (if updates.startTime u \<noteq> None then [''startTime''] else [])
     @ (if updates.endTime u \<noteq> None then [''endTime''] else [])
     @ (if updates.dentist u \<noteq> None then [''dentist''] else [])
     @ (if updates.patient u \<noteq> None then [''patient''] else [])
     @ (if updates.status u \<noteq> None then [''status''] else [])
     @ (if updates.duration u \<noteq> None then [''duration''] else [])
     @ (if updates.treatments u \<noteq> None then [''treatments''] else [])
     @ (if updates.cost u \<noteq> None then [''cost''] else [])
     @ (if updates.cancellation u \<noteq> None then [''cancellation''] else [])
     @ (if updates.rescheduling u \<noteq> None then [''rescheduling''] else [])
     @ filter (\<lambda>k. k \<notin> set [''appointmentId'', ''createdAt'', ''updatedAt'']) (otherKeys u)"

text \<open>
  The update validators, those of the paths the body sets, and the update itself; the
  reason of a cancellation or rescheduling object in the body is stored trimmed.
\<close>

definition validUpdates :: "updates \<Rightarrow> bool" where
  "validUpdates u =
     ((case updates.startTime u of None \<Rightarrow> True | Some v \<Rightarrow> matchesTimePattern v)
      \<and> (case updates.endTime u of None \<Rightarrow> True | Some v \<Rightarrow> matchesTimePattern v)
      \<and> (case updates.duration u of None \<Rightarrow> True | Some v \<Rightarrow> 15 \<le> v)
      \<and> (case updates.treatments u of None \<Rightarrow> True | Some v \<Rightarrow> list_all validTreatment v)
      \<and> (case updates.cost u of None \<Rightarrow> True | Some v \<Rightarrow> validCost v)
      \<and> (case updates.cancellation u of None \<Rightarrow> True | Some v \<Rightarrow> 0 \<le> refundAmount v)
      \<and> otherValid u)"

definition applyUpdates :: "updates \<Rightarrow> appointment \<Rightarrow> appointment" where
  "applyUpdates u a =
     a\<lparr>appointment.appointmentDate :=
          (case updates.appointmentDate u of None \<Rightarrow> appointment.appointmentDate a | Some v \<Rightarrow> v),
       appointment.startTime :=
          (case updates.startTime u of None \<Rightarrow> appointment.startTime a | Some v \<Rightarrow> v),
       appointment.endTime :=
          (case updates.endTime u of None \<Rightarrow> appointment.endTime a | Some v \<Rightarrow> v),
       appointment.dentist :=
          (case updates.dentist u of None \<Rightarrow> appointment.dentist a | Some v \<Rightarrow> v),
       appointment.patient :=
          (case updates.patient u of None \<Rightarrow> appointment.patient a | Some v \<Rightarrow> v),
       appointment.status :=
          (case updates.status u of None \<Rightarrow> appointment.status a | Some v \<Rightarrow> v),
       appointment.duration :=
          (case updates.duration u of None \<Rightarrow> appointment.duration a | Some v \<Rightarrow> Some v),
       appointment.treatments :=
          (case updates.treatments u of None \<Rightarrow> appointment.treatments a | Some v \<Rightarrow> v),
       appointment.cost :=
          (case updates.cost u of None \<Rightarrow> appointment.cost a | Some v \<Rightarrow> v),
       appointment.cancellation :=
          (case updates.cancellation u of
             None \<Rightarrow> appointment.cancellation a
           | Some v \<Rightarrow>
               Some (v\<lparr>cancellation.reason := map_option trim (cancellation.reason v)\<rparr>)),
       appointment.rescheduling :=
          (case updates.rescheduling u of
             None \<Rightarrow> appointment.rescheduling a
           | Some v \<Rightarrow>
               Some (v\<lparr>rescheduling.reason := map_option trim (rescheduling.reason v)\<rparr>))\<rparr>"

text \<open>
  The validation block of \<^verbatim>\<open>updateAppointment\<close>: \<open>None\<close> when the update may go on,
  otherwise the response that rejects it.
\<close>

definition updateChecks :: "db \<Rightarrow> objectId \<Rightarrow> appointment \<Rightarrow> updates \<Rightarrow> response option" where
  "updateChecks store id' a u =
     (if updates.appointmentDate u \<noteq> None \<or> truthy (updates.startTime u)
         \<or> truthy (updates.endTime u) then
        let newDate = (case updates.appointmentDate u of
                         Some v \<Rightarrow> v | None \<Rightarrow> appointment.appointmentDate a);
            newStartTime = orElse (updates.startTime u) (appointment.startTime a);
            newEndTime = orElse (updates.endTime u) (appointment.endTime a);
            dentistId = (case updates.dentist u of
                           Some v \<Rightarrow> v | None \<Rightarrow> appointment.dentist a);
            unavailable =
              (case updates.dentist u of
                 None \<Rightarrow> None
               | Some _ \<Rightarrow>
                   (case findDentistById (dentists store) dentistId of
                      None \<Rightarrow> Some (errorResponse ''Selected dentist is not available'' 400)
                    | Some d \<Rightarrow>
                        if dentistStatus d \<noteq> Active
                        then Some (errorResponse ''Selected dentist is not available'' 400)
                        else if \<not> isAvailableAt d newDate newStartTime newEndTime
                        then Some (errorResponse
                                     ''Dentist is not available at the requested time'' 409)
                        else None))
        in (case unavailable of
              Some r \<Rightarrow> Some r
            | None \<Rightarrow>
                (case checkConflict (appointments store) dentistId newDate newStartTime
                        newEndTime (Some id') of
                   Some conflict \<Rightarrow>
                     Some (conflictResponse
                             ''Appointment time conflicts with existing appointment'')
                 | None \<Rightarrow> None))
      else None)"

definition updateAppointment :: "request \<Rightarrow> objectId \<Rightarrow> updates \<Rightarrow> db \<Rightarrow> response \<times> db" where
  "updateAppointment req id' u store =
     (case findById (appointments store) id' of
        None \<Rightarrow> (notFoundResponse ''Appointment'', store)
      | Some a \<Rightarrow>
          if patientOnly req \<and> notOwnAppointment req a
          then (errorResponse ''Access denied'' 403, store)
          else if patientOnly req
                  \<and> list_ex (\<lambda>key. key \<notin> set [''symptoms'', ''notes.beforeAppointment''])
                       (updateKeys u)
          then (errorResponse ''Patients can only update symptoms and notes'' 403, store)
          else
            (case updateChecks store id' a u of
               Some r \<Rightarrow> (r, store)
             | None \<Rightarrow>
                 (case findByIdAndUpdate store id' (validUpdates u) (applyUpdates u) of
                    (RejectsValidationError, store') \<Rightarrow> (ThrowsValidationError, store')
                  | (Resolves updatedAppointment, store') \<Rightarrow>
                      (successResponse updatedAppointment ''Appointment updated successfully'',
                       store'))))"

text \<open>The \<^verbatim>\<open>data\<close> of a response, \<^verbatim>\<open>null\<close> also for a response that carries none.\<close>

fun responseData :: "response \<Rightarrow> appointment option" where
  "responseData (SuccessResponse data message statusCode) = data"
| "responseData (ErrorResponse message statusCode) = None"
| "responseData ThrowsTypeError = None"
| "responseData ThrowsValidationError = None"

section \<open>Scenarios\<close>

text \<open>
  The data of the specification's scenarios: Monday 8 January 2024, a dentist who works
  Mondays from 09:00 to 17:00 with 30-minute consultations and a 15-minute buffer, and the
  same dentist with an approved and a merely requested absence around that Monday.
\<close>

definition monday :: jsDate where
  "monday = \<lparr>getTime = 1704672000000, getDay = 1, toISODate = ''2024-01-08''\<rparr>"

definition mondayHours :: availabilitySlot where
  "mondayHours = \<lparr>dayOfWeek = 1, availabilitySlot.startTime = ''09:00'',
                   availabilitySlot.endTime = ''17:00'', isActive = True\<rparr>"

definition drSmith :: dentist where
  "drSmith = \<lparr>dentistOid = 1, dentistStatus = Active,
               schedule = \<lparr>regularHours = [mondayHours], timeOff = [],
                           consultationDuration = 30, bufferTime = 15\<rparr>\<rparr>"

definition winterLeave :: timeOff where
  "winterLeave =
     \<lparr>startDate = \<lparr>getTime = 1704412800000, getDay = 5, toISODate = ''2024-01-05''\<rparr>,
      endDate = \<lparr>getTime = 1705017600000, getDay = 5, toISODate = ''2024-01-12''\<rparr>,
      isApproved = True\<rparr>"

definition requestedLeave :: timeOff where
  "requestedLeave =
     \<lparr>startDate = \<lparr>getTime = 1705276800000, getDay = 1, toISODate = ''2024-01-15''\<rparr>,
      endDate = \<lparr>getTime = 1705363200000, getDay = 2, toISODate = ''2024-01-16''\<rparr>,
      isApproved = False\<rparr>"

definition drSmithOnLeave :: dentist where
  "drSmithOnLeave =
     drSmith\<lparr>schedule := (schedule drSmith)\<lparr>timeOff := [requestedLeave, winterLeave]\<rparr>\<rparr>"

text \<open>
  The same dentist with consultations of 22.5 minutes and no buffer, and a second dentist
  who works Tuesdays only, from 08:30 to 12:15, with 20-minute consultations and a
  10-minute buffer.
\<close>

definition drSmithHalfMinutes :: dentist where
  "drSmithHalfMinutes =
     drSmith\<lparr>schedule := (schedule drSmith)\<lparr>consultationDuration := 45 / 2,
                                               bufferTime := 0\<rparr>\<rparr>"

definition tuesday :: jsDate where
  "tuesday = \<lparr>getTime = 1704758400000, getDay = 2, toISODate = ''2024-01-09''\<rparr>"

definition tuesdayHours :: availabilitySlot where
  "tuesdayHours = \<lparr>dayOfWeek = 2, availabilitySlot.startTime = ''08:30'',
                    availabilitySlot.endTime = ''12:15'', isActive = True\<rparr>"

definition drJones :: dentist where
  "drJones = \<lparr>dentistOid = 2, dentistStatus = Active,
               schedule = \<lparr>regularHours = [tuesdayHours], timeOff = [],
                           consultationDuration = 20, bufferTime = 10\<rparr>\<rparr>"

text \<open>
  A clinic on 1 January 2024 with the two dentists and one appointment, a check-up with
  the first dentist on the Monday from 10:00 to 10:30, and a request made by a member of
  staff.
\<close>

definition newYearsDay :: jsDate where
  "newYearsDay = \<lparr>getTime = 1704067200000, getDay = 1, toISODate = ''2024-01-01''\<rparr>"

definition clinicClock :: clock where
  "clinicClock =
     \<lparr>now = \<lparr>getTime = 1704101400000, getDay = 1, toISODate = ''2024-01-01''\<rparr>,
      today = newYearsDay\<rparr>"

definition checkup :: appointment where
  "checkup =
     \<lparr>oid = 10, appointmentId = ''APT20240101001'', appointment.patient = 100,
      appointment.dentist = 1, appointment.appointmentDate = monday,
      appointment.startTime = ''10:00'', appointment.endTime = ''10:30'',
      appointment.duration = Some 30, appointment.status = Scheduled,
      appointment.treatments = [],
      appointment.cost =
        \<lparr>estimated = None, actual = None, insuranceCovered = 0, patientPayment = None\<rparr>,
      appointment.cancellation = None, appointment.rescheduling = None,
      createdAt = newYearsDay\<rparr>"

definition clinic :: db where
  "clinic = \<lparr>appointments = [checkup], dentists = [drSmith, drJones]\<rparr>"

definition staff :: request where
  "staff = \<lparr>patientOnly = False, role = RoleStaff, userPatient = None\<rparr>"

text \<open>
  Bodies of a general update: nothing, new times after closing, a later end, and the
  second dentist alone.
\<close>

definition noUpdates :: updates where
  "noUpdates =
     \<lparr>updates.appointmentDate = None, updates.startTime = None, updates.endTime = None,
      updates.dentist = None, updates.patient = None, updates.status = None,
      updates.duration = None, updates.treatments = None, updates.cost = None,
      updates.cancellation = None, updates.rescheduling = None, otherKeys = [],
      otherValid = True\<rparr>"

definition afterHours :: updates where
  "afterHours =
     noUpdates\<lparr>updates.startTime := Some ''18:00'', updates.endTime := Some ''18:30''\<rparr>"


definition toDrJones :: updates where
  "toDrJones = noUpdates\<lparr>updates.dentist := Some 2\<rparr>"

text \<open>The same clinic with the check-up cancelled, with the check-up rescheduled to 14:00,
  and with the dentists' records gone.\<close>

definition cancelledClinic :: db where
  "cancelledClinic =
     clinic\<lparr>appointments := [checkup\<lparr>appointment.status := Cancelled\<rparr>]\<rparr>"


definition orphanClinic :: db where
  "orphanClinic = \<lparr>appointments = [checkup], dentists = []\<rparr>"

text \<open>
  An early visit whose times were stored without the leading zero, which the schema's
  pattern accepts, and a date on the same Monday at 10:00 UTC instead of midnight.
\<close>

definition earlyVisit :: appointment where
  "earlyVisit =
     checkup\<lparr>oid := 11, appointment.startTime := ''9:00'', appointment.endTime := ''9:30''\<rparr>"

definition mondayAtTen :: jsDate where
  "mondayAtTen = \<lparr>getTime = 1704708000000, getDay = 1, toISODate = ''2024-01-08''\<rparr>"

section \<open>Parsing and formatting times of day\<close>

lemma isDigit_range: "isDigit c \<Longrightarrow> 0 \<le> digitValue c \<and> digitValue c \<le> 9"
  by (auto simp: isDigit_def digitValue_def less_eq_char_def)

lemma isDigit_digitNat: "isDigit c \<Longrightarrow> digitValue c = int (digitNat c) \<and> digitNat c \<le> 9"
  by (auto simp: isDigit_def digitValue_def digitNat_def less_eq_char_def)

lemma isDigit_not_colon: "isDigit c \<Longrightarrow> c \<noteq> CHR '':''"
  by (auto simp: isDigit_def)

lemma upto5_digit:
  "CHR ''0'' \<le> c \<Longrightarrow> c \<le> CHR ''5'' \<Longrightarrow> isDigit c \<and> digitNat c \<le> 5"
  by (auto simp: isDigit_def digitNat_def less_eq_char_def)

lemma hour_digits:
  assumes "((h1 = CHR ''0'' \<or> h1 = CHR ''1'') \<and> isDigit h0)
           \<or> (h1 = CHR ''2'' \<and> CHR ''0'' \<le> h0 \<and> h0 \<le> CHR ''3'')"
  shows "isDigit h1 \<and> isDigit h0 \<and> 10 * digitNat h1 + digitNat h0 \<le> 23"
  using assms by (auto simp: isDigit_def digitNat_def less_eq_char_def)

lemma trim_digits: "list_all isDigit s \<Longrightarrow> trim s = s"
proof -
  assume "list_all isDigit s"
  then have none: "\<forall>c \<in> set s. \<not> isWhiteSpace c"
    by (auto simp: list_all_iff isDigit_def isWhiteSpace_def)
  have keep: "dropWhile P xs = xs" if "\<forall>x \<in> set xs. \<not> P x" for P :: "char \<Rightarrow> bool" and xs
    using that by (cases xs) auto
  show ?thesis using none by (simp add: trim_def keep)
qed

lemma Number_digits:
  "list_all isDigit s \<Longrightarrow> Number s = Some (foldl (\<lambda>acc c. 10 * acc + digitValue c) 0 s)"
  by (simp add: Number_def trim_digits)

lemma totalMinutes_4:
  assumes "isDigit h" "isDigit m1" "isDigit m0"
  shows "totalMinutes [h, CHR '':'', m1, m0]
         = Some (digitValue h * 60 + (10 * digitValue m1 + digitValue m0))"
  using assms isDigit_not_colon[of h] isDigit_not_colon[of m1] isDigit_not_colon[of m0]
  by (simp add: totalMinutes_def Number_digits)

lemma totalMinutes_5:
  assumes "isDigit h1" "isDigit h0" "isDigit m1" "isDigit m0"
  shows "totalMinutes [h1, h0, CHR '':'', m1, m0]
         = Some ((10 * digitValue h1 + digitValue h0) * 60
                 + (10 * digitValue m1 + digitValue m0))"
  using assms isDigit_not_colon[of h1] isDigit_not_colon[of h0]
    isDigit_not_colon[of m1] isDigit_not_colon[of m0]
  by (simp add: totalMinutes_def Number_digits)

text \<open>
  On a time of day that the schema accepts, the code's parser returns the minutes from
  midnight of the specification, a minute of the day.
\<close>

lemma matchesTimePattern_totalMinutes:
  assumes "matchesTimePattern t"
  shows "totalMinutes t = Some (int (specMinutesFromMidnight t))
         \<and> specMinutesFromMidnight t < 1440"
proof -
  from assms consider
    (four) h c m1 m0 where "t = [h, c, m1, m0]"
  | (five) h1 h0 c m1 m0 where "t = [h1, h0, c, m1, m0]"
    by (cases t rule: matchesTimePattern.cases) auto
  then show ?thesis
  proof cases
    case four
    with assms have h: "isDigit h" and c: "c = CHR '':''"
      and m1: "CHR ''0'' \<le> m1" "m1 \<le> CHR ''5''" and m0: "isDigit m0"
      by simp_all
    note d1 = upto5_digit[OF m1]
    show ?thesis
      using totalMinutes_4[OF h conjunct1[OF d1] m0] isDigit_digitNat[OF h]
        isDigit_digitNat[OF m0] isDigit_digitNat[OF conjunct1[OF d1]] d1
      by (simp add: four c)
  next
    case five
    with assms have c: "c = CHR '':''"
      and m1: "CHR ''0'' \<le> m1" "m1 \<le> CHR ''5''" and m0: "isDigit m0"
      and hh: "((h1 = CHR ''0'' \<or> h1 = CHR ''1'') \<and> isDigit h0)
               \<or> (h1 = CHR ''2'' \<and> CHR ''0'' \<le> h0 \<and> h0 \<le> CHR ''3'')"
      by simp_all
    note d1 = upto5_digit[OF m1]
    note hd = hour_digits[OF hh]
    from hd have h1: "isDigit h1" and h0: "isDigit h0" by simp_all
    show ?thesis
      using totalMinutes_5[OF h1 h0 conjunct1[OF d1] m0] isDigit_digitNat[OF h1]
        isDigit_digitNat[OF h0] isDigit_digitNat[OF m0]
        isDigit_digitNat[OF conjunct1[OF d1]] d1 hd
      by (simp add: five c)
  qed
qed

lemma digits_two:
  "10 \<le> n \<Longrightarrow> n < 100
   \<Longrightarrow> digits n = [''0123456789'' ! (n div 10), ''0123456789'' ! (n mod 10)]"
  by (subst digits.simps) simp

lemma toString_of_nat: "toString (of_nat n) = digits n"
  by (simp add: toString_def Let_def del: digits.simps)

lemma padStart_two:
  assumes "n < 100"
  shows "padStart 2 CHR ''0'' (toString (of_nat n))
         = [''0123456789'' ! (n div 10), ''0123456789'' ! (n mod 10)]"
proof (cases "n < 10")
  case True
  then show ?thesis by (simp add: padStart_def toString_of_nat)
next
  case False
  with assms show ?thesis
    using digits_two[of n] by (simp add: padStart_def toString_of_nat del: digits.simps)
qed

text \<open>On a whole number of minutes below 100 hours the code prints the zero-padded time.\<close>

lemma timeString_zeroPadded:
  "timeString (of_nat i) = zeroPaddedHHMM (i div 60) (i mod 60)" if "i < 6000" for i :: nat
proof -
  have a: "i div 60 < 100" and b: "i mod 60 < 100" using that by simp_all
  have q: "(of_nat i :: rat) / 60 = of_int (int i) / of_int 60" by simp
  have h: "\<lfloor>(of_nat i :: rat) / 60\<rfloor> = int (i div 60)"
    unfolding q floor_divide_of_int_eq by (simp add: zdiv_int)
  have "(of_nat i :: rat) = of_nat (60 * (i div 60) + i mod 60)" by simp
  also have "\<dots> = 60 * of_nat (i div 60) + of_nat (i mod 60)"
    unfolding of_nat_add of_nat_mult by simp
  finally have split: "(of_nat i :: rat) = 60 * of_nat (i div 60) + of_nat (i mod 60)" .
  have nonneg: "0 \<le> (of_nat i :: rat) / 60" by simp
  have m: "jsRem (of_nat i) 60 = of_nat (i mod 60)"
    unfolding jsRem_def using nonneg h split by simp
  have hh: "(of_int \<lfloor>(of_nat i :: rat) / 60\<rfloor> :: rat) = of_nat (i div 60)"
    unfolding h by simp
  show ?thesis
    unfolding timeString_def hh m
    by (simp only: padStart_two[OF a] padStart_two[OF b] zeroPaddedHHMM_def append.simps)
qed

section \<open>The slot loop\<close>

text \<open>
  If exactly the first \<open>n\<close> candidates fit, the loop returns them, formatted, behind the
  slots it started with.
\<close>

lemma slotLoop_run:
  "(\<forall>k<n. minutes + of_nat k * t + d \<le> e) \<Longrightarrow> \<not> (minutes + of_nat n * t + d \<le> e) \<Longrightarrow>
   slotLoop minutes d t e slots
   = Some (slots @ map (\<lambda>k. timeString (minutes + of_nat k * t)) [0..<n])"
proof (induction n arbitrary: minutes slots)
  case 0
  then show ?case by (subst slotLoop.simps) simp
next
  case (Suc n)
  from Suc.prems(1) have fit: "minutes + d \<le> e" by force
  have a: "\<forall>k<n. (minutes + t) + of_nat k * t + d \<le> e"
  proof (intro allI impI)
    fix k assume "k < n"
    then have "minutes + of_nat (Suc k) * t + d \<le> e" using Suc.prems(1) by blast
    then show "(minutes + t) + of_nat k * t + d \<le> e" by (simp add: algebra_simps)
  qed
  have b: "\<not> ((minutes + t) + of_nat n * t + d \<le> e)"
    using Suc.prems(2) by (simp add: algebra_simps)
  have m: "map (\<lambda>k. timeString (minutes + of_nat k * t)) [0..<Suc n]
        = timeString minutes # map (\<lambda>k. timeString ((minutes + t) + of_nat k * t)) [0..<n]"
    by (simp add: upt_conv_Cons map_Suc_upt[symmetric] algebra_simps del: upt_Suc)
  show ?case
    by (subst slotLoop.simps) (simp add: fit Suc.IH[OF a b] m del: upt_Suc)
qed

text \<open>With a positive step the candidates that fit are the first \<open>n\<close>, for some \<open>n\<close>.\<close>

lemma fit_count:
  assumes t: "0 < (t::rat)"
  shows "\<exists>n::nat. \<forall>k::nat. k < n \<longleftrightarrow> m + of_nat k * t + d \<le> e"
proof -
  define P where "P k \<longleftrightarrow> \<not> (m + of_nat k * t + d \<le> e)" for k :: nat
  from ex_less_of_nat_mult[OF t, of "e - m - d"]
  obtain K :: nat where "e - m - d < of_nat K * t" by blast
  then have ex: "P K" unfolding P_def by linarith
  define n where "n = (LEAST k. P k)"
  have Pn: "P n" unfolding n_def using ex by (rule LeastI)
  have below: "\<not> P k" if "k < n" for k
    using that not_less_Least unfolding n_def by blast
  have above: "P k" if "n \<le> k" for k
  proof -
    have "(of_nat n :: rat) \<le> of_nat k" using that by simp
    then have "of_nat n * t \<le> of_nat k * t" using t by (intro mult_right_mono) simp_all
    with Pn show ?thesis unfolding P_def by linarith
  qed
  have "\<forall>k::nat. k < n \<longleftrightarrow> m + of_nat k * t + d \<le> e"
  proof
    fix k :: nat
    show "k < n \<longleftrightarrow> m + of_nat k * t + d \<le> e"
    proof (cases "k < n")
      case True
      with below[of k] show ?thesis by (simp add: P_def)
    next
      case False
      with above[of k] show ?thesis by (simp add: P_def)
    qed
  qed
  then show ?thesis by blast
qed

lemma slotLoop_returns:
  assumes "0 < t"
  shows "\<exists>n. slotLoop minutes d t e slots
              = Some (slots @ map (\<lambda>k. timeString (minutes + of_nat k * t)) [0..<n])
            \<and> (\<forall>k. k < n \<longleftrightarrow> minutes + of_nat k * t + d \<le> e)"
proof -
  from fit_count[OF assms, of minutes d e]
  obtain n where n: "\<forall>k::nat. k < n \<longleftrightarrow> minutes + of_nat k * t + d \<le> e" by blast
  then have "\<forall>k<n. minutes + of_nat k * t + d \<le> e"
    and "\<not> (minutes + of_nat n * t + d \<le> e)"
    by auto
  from slotLoop_run[OF this] n show ?thesis by blast
qed

text \<open>The approved absences alone decide whether a date is covered.\<close>

lemma coversDate_approved:
  "list_ex (coversDate r) (filter isApproved off) = list_ex (coversDate r) off"
  by (induction off) (auto simp: coversDate_def)

section \<open>Claims about the availability calculator\<close>

text \<open>
  C3, as the code has it. When the target date's day of the week has an active weekly
  rule and no approved absence covers the date, and the consultation duration (at least
  15) and the buffer (at least 0) are whole numbers of minutes, \<open>getAvailableSlots\<close>
  returns exactly the start times \<open>ruleStart + k * (duration + buffer)\<close>,
  \<open>k = 0, 1, 2, \<dots>\<close>, with \<open>start + duration \<le> ruleEnd\<close>, in increasing order, each
  formatted as zero-padded HH:MM; \<open>ruleStart\<close> and \<open>ruleEnd\<close> are the minutes from
  midnight of the rule's two times, which are times of day as the schema accepts them.
  For the rule 09:00 to 17:00 with duration 30 and buffer 15 the first three slots are
  09:00, 09:45 and 10:30.
\<close>

theorem getAvailableSlots_whole_minutes:
  assumes rule: "find (\<lambda>slot. dayOfWeek slot = of_int (getDay date) \<and> isActive slot)
                   (regularHours (schedule d)) = Some hours"
    and noAbsence: "\<not> list_ex (coversDate (toISODate date)) (timeOff (schedule d))"
    and startOk: "matchesTimePattern (availabilitySlot.startTime hours)"
    and endOk: "matchesTimePattern (availabilitySlot.endTime hours)"
    and duration: "15 \<le> consultationDuration (schedule d)"
    and buffer: "0 \<le> bufferTime (schedule d)"
    and whole: "consultationDuration (schedule d) \<in> \<int>" "bufferTime (schedule d) \<in> \<int>"
    and ruleStart: "ruleStart = specMinutesFromMidnight (availabilitySlot.startTime hours)"
    and ruleEnd: "ruleEnd = specMinutesFromMidnight (availabilitySlot.endTime hours)"
  shows "(\<exists>n. getAvailableSlots d date
              = Some (map (\<lambda>k. timeString
                            (of_nat ruleStart
                             + of_nat k * (consultationDuration (schedule d)
                                           + bufferTime (schedule d))))
                        [0..<n])
          \<and> (\<forall>k. k < n \<longleftrightarrow>
                   of_nat ruleStart
                   + of_nat k * (consultationDuration (schedule d) + bufferTime (schedule d))
                   + consultationDuration (schedule d) \<le> of_nat ruleEnd)
          \<and> (\<forall>k<n. \<exists>h m. m < 60
                 \<and> of_nat (h * 60 + m)
                     = of_nat ruleStart
                       + of_nat k * (consultationDuration (schedule d)
                                     + bufferTime (schedule d))
                 \<and> timeString (of_nat ruleStart
                                + of_nat k * (consultationDuration (schedule d)
                                              + bufferTime (schedule d)))
                     = zeroPaddedHHMM h m))
       \<and> map_option (take 3) (getAvailableSlots drSmith monday)
           = Some [''09:00'', ''09:45'', ''10:30'']"
proof
  define dur where "dur = consultationDuration (schedule d)"
  define step where "step = consultationDuration (schedule d) + bufferTime (schedule d)"
  have step: "0 < step" using duration buffer by (simp add: step_def)
  from whole(1) obtain di :: int where di: "consultationDuration (schedule d) = of_int di"
    by (rule Ints_cases)
  from whole(2) obtain bi :: int where bi: "bufferTime (schedule d) = of_int bi"
    by (rule Ints_cases)
  have di15: "15 \<le> di" using duration unfolding di by simp
  have bi0: "0 \<le> bi" using buffer unfolding bi by simp
  define dn where "dn = nat di"
  define sn where "sn = nat (di + bi)"
  have dn: "dur = of_nat dn" using di15 by (simp add: dur_def di dn_def)
  have sn: "step = of_nat sn" using di15 bi0 by (simp add: step_def di bi sn_def)
  note rs = matchesTimePattern_totalMinutes[OF startOk, folded ruleStart]
  note re = matchesTimePattern_totalMinutes[OF endOk, folded ruleEnd]
  from slotLoop_returns[OF step, of "of_nat ruleStart" dur "of_nat ruleEnd" "[]"]
  obtain n where run: "slotLoop (of_nat ruleStart) dur step (of_nat ruleEnd) []
                       = Some (map (\<lambda>k. timeString (of_nat ruleStart + of_nat k * step))
                                 [0..<n])"
    and fits: "\<forall>k. k < n \<longleftrightarrow> of_nat ruleStart + of_nat k * step + dur \<le> of_nat ruleEnd"
    by auto
  have result: "getAvailableSlots d date
                = Some (map (\<lambda>k. timeString (of_nat ruleStart + of_nat k * step)) [0..<n])"
    using rule noAbsence rs re run
    by (simp add: getAvailableSlots_def Let_def dur_def step_def)
  have padded: "\<forall>k<n. \<exists>h m. m < 60
                  \<and> of_nat (h * 60 + m) = of_nat ruleStart + of_nat k * step
                  \<and> timeString (of_nat ruleStart + of_nat k * step) = zeroPaddedHHMM h m"
  proof (intro allI impI)
    fix k assume "k < n"
    with fits have "of_nat ruleStart + of_nat k * step + dur \<le> (of_nat ruleEnd :: rat)"
      by blast
    then have "(of_nat (ruleStart + k * sn + dn) :: rat) \<le> of_nat ruleEnd"
      by (simp add: sn dn)
    then have le: "ruleStart + k * sn + dn \<le> ruleEnd" by (simp only: of_nat_le_iff)
    define s where "s = ruleStart + k * sn"
    have eq: "(of_nat ruleStart + of_nat k * step :: rat) = of_nat s"
      by (simp add: s_def sn)
    have s1: "s < 6000" using le re by (simp add: s_def)
    have "s mod 60 < 60" by simp
    moreover have "(of_nat (s div 60 * 60 + s mod 60) :: rat) = of_nat s" by simp
    moreover note timeString_zeroPadded[OF s1]
    ultimately show "\<exists>h m. m < 60
                  \<and> of_nat (h * 60 + m) = of_nat ruleStart + of_nat k * step
                  \<and> timeString (of_nat ruleStart + of_nat k * step) = zeroPaddedHHMM h m"
      unfolding eq by blast
  qed
  show "\<exists>n. getAvailableSlots d date
              = Some (map (\<lambda>k. timeString
                            (of_nat ruleStart
                             + of_nat k * (consultationDuration (schedule d)
                                           + bufferTime (schedule d))))
                        [0..<n])
          \<and> (\<forall>k. k < n \<longleftrightarrow>
                   of_nat ruleStart
                   + of_nat k * (consultationDuration (schedule d) + bufferTime (schedule d))
                   + consultationDuration (schedule d) \<le> of_nat ruleEnd)
          \<and> (\<forall>k<n. \<exists>h m. m < 60
                 \<and> of_nat (h * 60 + m)
                     = of_nat ruleStart
                       + of_nat k * (consultationDuration (schedule d)
                                     + bufferTime (schedule d))
                 \<and> timeString (of_nat ruleStart
                                + of_nat k * (consultationDuration (schedule d)
                                              + bufferTime (schedule d)))
                     = zeroPaddedHHMM h m)"
    using result fits padded unfolding dur_def step_def by blast
next
  show "map_option (take 3) (getAvailableSlots drSmith monday)
        = Some [''09:00'', ''09:45'', ''10:30'']"
    by code_simp
qed

theorem getAvailableSlots_whole_minutes_witness:
  "find (\<lambda>slot. dayOfWeek slot = of_int (getDay tuesday) \<and> isActive slot)
     (regularHours (schedule drJones)) = Some tuesdayHours
   \<and> \<not> list_ex (coversDate (toISODate tuesday)) (timeOff (schedule drJones))
   \<and> matchesTimePattern (availabilitySlot.startTime tuesdayHours)
   \<and> matchesTimePattern (availabilitySlot.endTime tuesdayHours)
   \<and> 15 \<le> consultationDuration (schedule drJones)
   \<and> 0 \<le> bufferTime (schedule drJones)
   \<and> consultationDuration (schedule drJones) \<in> \<int>
   \<and> bufferTime (schedule drJones) \<in> \<int>
   \<and> 510 = specMinutesFromMidnight (availabilitySlot.startTime tuesdayHours)
   \<and> 735 = specMinutesFromMidnight (availabilitySlot.endTime tuesdayHours)
   \<and> (\<exists>n. getAvailableSlots drJones tuesday
            = Some (map (\<lambda>k. timeString (510 + of_nat k * 30)) [0..<n])
          \<and> (\<forall>k. k < n \<longleftrightarrow> (510 + of_nat k * 30 + 20 :: rat) \<le> 735))
   \<and> getAvailableSlots drJones tuesday
      = Some [''08:30'', ''09:00'', ''09:30'', ''10:00'', ''10:30'', ''11:00'', ''11:30'']"
proof -
  have h1: "find (\<lambda>slot. dayOfWeek slot = of_int (getDay tuesday) \<and> isActive slot)
              (regularHours (schedule drJones)) = Some tuesdayHours" by code_simp
  have h2: "\<not> list_ex (coversDate (toISODate tuesday)) (timeOff (schedule drJones))"
    by code_simp
  have h3: "matchesTimePattern (availabilitySlot.startTime tuesdayHours)" by code_simp
  have h4: "matchesTimePattern (availabilitySlot.endTime tuesdayHours)" by code_simp
  have p: "consultationDuration (schedule drJones) = 20" "bufferTime (schedule drJones) = 10"
    by (simp_all add: drJones_def)
  have h5: "15 \<le> consultationDuration (schedule drJones)" unfolding p by simp
  have h6: "0 \<le> bufferTime (schedule drJones)" unfolding p by simp
  have h7: "consultationDuration (schedule drJones) \<in> \<int>" unfolding p by simp
  have h8: "bufferTime (schedule drJones) \<in> \<int>" unfolding p by simp
  have h9: "510 = specMinutesFromMidnight (availabilitySlot.startTime tuesdayHours)"
    by (simp add: tuesdayHours_def digitNat_def)
  have h10: "735 = specMinutesFromMidnight (availabilitySlot.endTime tuesdayHours)"
    by (simp add: tuesdayHours_def digitNat_def)
  from getAvailableSlots_whole_minutes[OF h1 h2 h3 h4 h5 h6 h7 h8 h9 h10]
  have "\<exists>n. getAvailableSlots drJones tuesday
            = Some (map (\<lambda>k. timeString (510 + of_nat k * 30)) [0..<n])
          \<and> (\<forall>k. k < n \<longleftrightarrow> (510 + of_nat k * 30 + 20 :: rat) \<le> 735)"
    unfolding p by auto
  moreover have "getAvailableSlots drJones tuesday
      = Some [''08:30'', ''09:00'', ''09:30'', ''10:00'', ''10:30'', ''11:00'', ''11:30'']"
    by code_simp
  ultimately show ?thesis using h1 h2 h3 h4 h5 h6 h7 h8 h9 h10 by blast
qed

text \<open>
  The claim C3 as written has every slot in zero-padded HH:MM for every policy. The
  schema bounds the consultation duration between 15 and 120 and does not ask for a whole
  number: with 22.5 minutes and no buffer, on the rule 09:00 to 17:00, the second slot is
  09:22.5 and the fourth is 10:7.5.
\<close>

theorem getAvailableSlots_fraction_counterexample:
  "find (\<lambda>slot. dayOfWeek slot = of_int (getDay monday) \<and> isActive slot)
     (regularHours (schedule drSmithHalfMinutes)) = Some mondayHours
   \<and> \<not> list_ex (coversDate (toISODate monday)) (timeOff (schedule drSmithHalfMinutes))
   \<and> 15 \<le> consultationDuration (schedule drSmithHalfMinutes)
   \<and> consultationDuration (schedule drSmithHalfMinutes) \<le> 120
   \<and> bufferTime (schedule drSmithHalfMinutes) = 0
   \<and> map_option (take 4) (getAvailableSlots drSmithHalfMinutes monday)
      = Some [''09:00'', ''09:22.5'', ''09:45'', ''10:7.5'']
   \<and> map_option (list_all zeroPadded) (getAvailableSlots drSmithHalfMinutes monday)
      = Some False"
  by (intro conjI; code_simp)

text \<open>
  C7. For a target date between the start and the end date (both included) of an absence
  with \<open>isApproved\<close>, \<open>getAvailableSlots\<close> returns the empty list, whatever the weekly
  rules and the policy; and absences that are not approved change neither the slots nor
  \<open>isAvailableAt\<close>: two absence lists with the same approved entries give the same answers.
\<close>

theorem approved_absence_blocks:
  "(t \<in> set (timeOff (schedule d)) \<and> isApproved t
      \<and> toISODate (startDate t) \<le> toISODate date \<and> toISODate date \<le> toISODate (endDate t)
    \<longrightarrow> getAvailableSlots d date = Some [])
   \<and> (filter isApproved off = filter isApproved (timeOff (schedule d))
      \<longrightarrow> getAvailableSlots (d\<lparr>schedule := (schedule d)\<lparr>timeOff := off\<rparr>\<rparr>) date
            = getAvailableSlots d date
        \<and> isAvailableAt (d\<lparr>schedule := (schedule d)\<lparr>timeOff := off\<rparr>\<rparr>) date start end
            = isAvailableAt d date start end)"
proof (intro conjI impI)
  assume a: "t \<in> set (timeOff (schedule d)) \<and> isApproved t
      \<and> toISODate (startDate t) \<le> toISODate date \<and> toISODate date \<le> toISODate (endDate t)"
  then have "coversDate (toISODate date) t" by (simp add: coversDate_def)
  with a have "list_ex (coversDate (toISODate date)) (timeOff (schedule d))"
    by (auto simp: list_ex_iff)
  then show "getAvailableSlots d date = Some []"
    by (simp add: getAvailableSlots_def split: option.split)
next
  assume "filter isApproved off = filter isApproved (timeOff (schedule d))"
  then have same: "list_ex (coversDate r) off = list_ex (coversDate r) (timeOff (schedule d))"
    for r
    using coversDate_approved[of r off] coversDate_approved[of r "timeOff (schedule d)"]
    by simp
  show "getAvailableSlots (d\<lparr>schedule := (schedule d)\<lparr>timeOff := off\<rparr>\<rparr>) date
        = getAvailableSlots d date"
    by (simp add: getAvailableSlots_def same split: option.split)
  show "isAvailableAt (d\<lparr>schedule := (schedule d)\<lparr>timeOff := off\<rparr>\<rparr>) date start end
        = isAvailableAt d date start end"
    by (simp add: isAvailableAt_def same split: option.split)
qed

theorem approved_absence_blocks_witness:
  "winterLeave \<in> set (timeOff (schedule drSmithOnLeave)) \<and> isApproved winterLeave
   \<and> toISODate (startDate winterLeave) \<le> toISODate monday
   \<and> toISODate monday \<le> toISODate (endDate winterLeave)
   \<and> getAvailableSlots drSmithOnLeave monday = Some []
   \<and> filter isApproved [winterLeave] = filter isApproved (timeOff (schedule drSmithOnLeave))
   \<and> getAvailableSlots
        (drSmithOnLeave\<lparr>schedule := (schedule drSmithOnLeave)\<lparr>timeOff := [winterLeave]\<rparr>\<rparr>)
        monday
      = getAvailableSlots drSmithOnLeave monday
   \<and> isAvailableAt
        (drSmithOnLeave\<lparr>schedule := (schedule drSmithOnLeave)\<lparr>timeOff := [winterLeave]\<rparr>\<rparr>)
        monday ''10:00'' ''10:30''
      = isAvailableAt drSmithOnLeave monday ''10:00'' ''10:30''"
proof -
  have h1: "winterLeave \<in> set (timeOff (schedule drSmithOnLeave)) \<and> isApproved winterLeave
            \<and> toISODate (startDate winterLeave) \<le> toISODate monday
            \<and> toISODate monday \<le> toISODate (endDate winterLeave)"
    by code_simp
  have h2: "filter isApproved [winterLeave]
            = filter isApproved (timeOff (schedule drSmithOnLeave))"
    by code_simp
  from approved_absence_blocks[of winterLeave drSmithOnLeave monday "[winterLeave]"
         "''10:00''" "''10:30''"] h1 h2
  show ?thesis by blast
qed



section \<open>The order of zero-padded times\<close>

lemma zeroPadded_form:
  assumes "zeroPadded t"
  obtains h1 h0 m1 m0 where "t = [h1, h0, CHR '':'', m1, m0]"
    and "isDigit h1" "isDigit h0" "isDigit m1" "isDigit m0" and "digitNat m1 \<le> 5"
proof -
  from assms have len: "length t = 5" and ok: "matchesTimePattern t"
    by (simp_all add: zeroPadded_def)
  from len obtain h1 h0 c m1 m0 where t: "t = [h1, h0, c, m1, m0]"
    by (auto simp: length_Suc_conv eval_nat_numeral)
  from ok have c: "c = CHR '':''" and m1: "CHR ''0'' \<le> m1" "m1 \<le> CHR ''5''"
    and m0: "isDigit m0"
    and hh: "((h1 = CHR ''0'' \<or> h1 = CHR ''1'') \<and> isDigit h0)
             \<or> (h1 = CHR ''2'' \<and> CHR ''0'' \<le> h0 \<and> h0 \<le> CHR ''3'')"
    unfolding t by simp_all
  from hour_digits[OF hh] upto5_digit[OF m1] m0 t c that show thesis by blast
qed

lemma digit_less: "isDigit c \<Longrightarrow> isDigit c' \<Longrightarrow> c < c' \<longleftrightarrow> digitNat c < digitNat c'"
  by (auto simp: isDigit_def digitNat_def less_char_def less_eq_char_def)

lemma digit_eq: "isDigit c \<Longrightarrow> isDigit c' \<Longrightarrow> c = c' \<longleftrightarrow> digitNat c = digitNat c'"
proof -
  assume "isDigit c" "isDigit c'"
  then have "48 \<le> (of_char c :: nat)" "48 \<le> (of_char c' :: nat)"
    by (simp_all add: isDigit_def less_eq_char_def)
  then have "digitNat c = digitNat c' \<longleftrightarrow> (of_char c :: nat) = of_char c'"
    unfolding digitNat_def by linarith
  then show ?thesis by simp
qed

lemma lexicographic_minutes:
  fixes a b c d a' b' c' d' :: nat
  assumes "b \<le> 9" "c \<le> 5" "d \<le> 9" "b' \<le> 9" "c' \<le> 5" "d' \<le> 9"
  shows "(a < a' \<or> a = a' \<and> (b < b' \<or> b = b' \<and> (c < c' \<or> c = c' \<and> d < d')))
         \<longleftrightarrow> 60 * (10 * a + b) + (10 * c + d) < 60 * (10 * a' + b') + (10 * c' + d')"
  using assms by auto

text \<open>
  On zero-padded times the order of the strings is the order of the times of day, and
  equal strings are equal times.
\<close>

lemma zeroPadded_less:
  assumes "zeroPadded s" "zeroPadded t"
  shows "s < t \<longleftrightarrow> specMinutesFromMidnight s < specMinutesFromMidnight t"
proof -
  from assms(1) obtain a b c d where s: "s = [a, b, CHR '':'', c, d]"
    and ds: "isDigit a" "isDigit b" "isDigit c" "isDigit d" and cs: "digitNat c \<le> 5"
    by (rule zeroPadded_form)
  from assms(2) obtain a' b' c' d' where t: "t = [a', b', CHR '':'', c', d']"
    and dt: "isDigit a'" "isDigit b'" "isDigit c'" "isDigit d'" and ct: "digitNat c' \<le> 5"
    by (rule zeroPadded_form)
  have bounds: "digitNat b \<le> 9" "digitNat d \<le> 9" "digitNat b' \<le> 9" "digitNat d' \<le> 9"
    using ds dt isDigit_digitNat by blast+
  have "s < t \<longleftrightarrow>
        (digitNat a < digitNat a' \<or> digitNat a = digitNat a'
          \<and> (digitNat b < digitNat b' \<or> digitNat b = digitNat b'
            \<and> (digitNat c < digitNat c' \<or> digitNat c = digitNat c'
              \<and> digitNat d < digitNat d')))"
    unfolding s t
    by (simp add: digit_less[OF ds(1) dt(1)] digit_less[OF ds(2) dt(2)]
          digit_less[OF ds(3) dt(3)] digit_less[OF ds(4) dt(4)]
          digit_eq[OF ds(1) dt(1)] digit_eq[OF ds(2) dt(2)] digit_eq[OF ds(3) dt(3)])
  also have "\<dots> \<longleftrightarrow> specMinutesFromMidnight s < specMinutesFromMidnight t"
    unfolding s t specMinutesFromMidnight.simps
    by (rule lexicographic_minutes[OF bounds(1) cs bounds(2) bounds(3) ct bounds(4)])
  finally show ?thesis .
qed

lemma zeroPadded_eq:
  assumes "zeroPadded s" "zeroPadded t"
  shows "s = t \<longleftrightarrow> specMinutesFromMidnight s = specMinutesFromMidnight t"
proof -
  have "\<not> s < t \<and> \<not> t < s \<longleftrightarrow> s = t" by auto
  then show ?thesis
    using zeroPadded_less[OF assms] zeroPadded_less[OF assms(2) assms(1)] by auto
qed

section \<open>The stored documents\<close>

lemma findById_oid: "findById docs i = Some a \<Longrightarrow> oid a = i"
  by (auto simp: findById_def find_Some_iff)

lemma findById_replaceDoc:
  "findById docs i = Some a \<Longrightarrow> oid b = i \<Longrightarrow> findById (replaceDoc b docs) i = Some b"
  by (induction docs) (auto simp: findById_def replaceDoc_def split: if_splits)

lemma oid_generateAppointmentId [simp]: "oid (generateAppointmentId clk docs a) = oid a"
  by (simp add: generateAppointmentId_def Let_def)

lemma oid_calculateDuration [simp]: "oid (calculateDuration a) = oid a"
  by (simp add: calculateDuration_def)

text \<open>A document that has passed validation goes through the first hook as it is.\<close>

lemma generateAppointmentId_valid:
  "validate a \<Longrightarrow> generateAppointmentId clk docs a = a"
  by (simp add: validate_def generateAppointmentId_def)

lemma save_valid:
  "validate a \<Longrightarrow>
   save clk store a
   = (Resolves (calculateDuration a),
      store\<lparr>appointments := replaceDoc (calculateDuration a) (appointments store)\<rparr>)"
  by (simp add: save_def Let_def generateAppointmentId_valid)

lemma save_invalid: "\<not> validate a \<Longrightarrow> save clk store a = (RejectsValidationError, store)"
  by (simp add: save_def)

text \<open>The second hook changes the duration and nothing else.\<close>

lemma calculateDuration_frame:
  "(calculateDuration a)\<lparr>appointment.duration := appointment.duration a\<rparr> = a"
  by (simp add: calculateDuration_def)


section \<open>Claims about the conflict detector\<close>

text \<open>The query of \<open>checkConflict\<close>, read as a condition on the stored documents.\<close>

lemma checkConflict_query:
  "checkConflict existing practitioner date s e excludeId \<noteq> None
   \<longleftrightarrow> (\<exists>a \<in> set existing.
           appointment.dentist a = practitioner
         \<and> getTime (appointment.appointmentDate a) = getTime date
         \<and> appointment.status a \<notin> {Cancelled, NoShow}
         \<and> (\<forall>x. excludeId = Some x \<longrightarrow> oid a \<noteq> x)
         \<and> appointment.startTime a < e \<and> appointment.endTime a > s)"
  by (cases excludeId) (auto simp: checkConflict_def find_None_iff)

lemma checkConflict_found:
  "checkConflict existing practitioner date s e excludeId = Some a
   \<Longrightarrow> a \<in> set existing \<and> appointment.startTime a < e \<and> appointment.endTime a > s"
  by (auto simp: checkConflict_def find_Some_iff)

text \<open>
  C2, as the code has it. With the times of the existing appointments and of the
  candidate in zero-padded HH:MM, \<open>checkConflict\<close> finds a document (the controllers read
  its result as "there is a conflict") if and only if some existing appointment of that
  practitioner whose \<open>appointmentDate\<close> is the very date given (the same instant), whose
  status is neither cancelled nor no-show and whose id differs from \<open>excludeId\<close>, starts
  before the candidate's end and ends after the candidate's start, as times of day. Then
  intervals that touch never conflict: an appointment that ends at the candidate's start,
  or starts at its end, is never the conflict found, and there is none if all existing
  appointments touch the candidate. Against an existing 10:00 to 10:30 booking the
  candidate 10:30 to 11:00 does not conflict, while the candidate 10:15 to 10:45 does.
\<close>

theorem checkConflict_zeroPadded:
  assumes stored: "\<forall>a \<in> set existing. zeroPadded (appointment.startTime a)
                                      \<and> zeroPadded (appointment.endTime a)"
    and s: "zeroPadded s" and e: "zeroPadded e"
  shows "(checkConflict existing practitioner date s e excludeId \<noteq> None
          \<longleftrightarrow> (\<exists>a \<in> set existing.
                  appointment.dentist a = practitioner
                \<and> getTime (appointment.appointmentDate a) = getTime date
                \<and> appointment.status a \<notin> {Cancelled, NoShow}
                \<and> (\<forall>x. excludeId = Some x \<longrightarrow> oid a \<noteq> x)
                \<and> specMinutesFromMidnight (appointment.startTime a)
                    < specMinutesFromMidnight e
                \<and> specMinutesFromMidnight (appointment.endTime a)
                    > specMinutesFromMidnight s))
       \<and> (\<forall>a. checkConflict existing practitioner date s e excludeId = Some a
              \<longrightarrow> specMinutesFromMidnight (appointment.endTime a)
                    \<noteq> specMinutesFromMidnight s
                \<and> specMinutesFromMidnight (appointment.startTime a)
                    \<noteq> specMinutesFromMidnight e)
       \<and> ((\<forall>a \<in> set existing.
               specMinutesFromMidnight (appointment.endTime a) = specMinutesFromMidnight s
             \<or> specMinutesFromMidnight (appointment.startTime a) = specMinutesFromMidnight e)
            \<longrightarrow> checkConflict existing practitioner date s e excludeId = None)
       \<and> checkConflict [checkup] 1 monday ''10:15'' ''10:45'' None \<noteq> None
       \<and> checkConflict [checkup] 1 monday ''10:30'' ''11:00'' None = None"
proof -
  have before: "appointment.startTime a < e
                \<longleftrightarrow> specMinutesFromMidnight (appointment.startTime a)
                      < specMinutesFromMidnight e"
    and after: "appointment.endTime a > s
                \<longleftrightarrow> specMinutesFromMidnight (appointment.endTime a)
                      > specMinutesFromMidnight s"
    if "a \<in> set existing" for a
    using that stored zeroPadded_less[OF _ e] zeroPadded_less[OF s] by blast+
  have iff: "checkConflict existing practitioner date s e excludeId \<noteq> None
          \<longleftrightarrow> (\<exists>a \<in> set existing.
                  appointment.dentist a = practitioner
                \<and> getTime (appointment.appointmentDate a) = getTime date
                \<and> appointment.status a \<notin> {Cancelled, NoShow}
                \<and> (\<forall>x. excludeId = Some x \<longrightarrow> oid a \<noteq> x)
                \<and> specMinutesFromMidnight (appointment.startTime a)
                    < specMinutesFromMidnight e
                \<and> specMinutesFromMidnight (appointment.endTime a)
                    > specMinutesFromMidnight s)"
    unfolding checkConflict_query using before after by blast
  have found: "specMinutesFromMidnight (appointment.endTime a) \<noteq> specMinutesFromMidnight s
               \<and> specMinutesFromMidnight (appointment.startTime a)
                   \<noteq> specMinutesFromMidnight e"
    if "checkConflict existing practitioner date s e excludeId = Some a" for a
    using checkConflict_found[OF that] before[of a] after[of a] by auto
  have touching: "checkConflict existing practitioner date s e excludeId = None"
    if "\<forall>a \<in> set existing.
               specMinutesFromMidnight (appointment.endTime a) = specMinutesFromMidnight s
             \<or> specMinutesFromMidnight (appointment.startTime a) = specMinutesFromMidnight e"
  proof (rule ccontr)
    assume "checkConflict existing practitioner date s e excludeId \<noteq> None"
    then obtain a where a: "checkConflict existing practitioner date s e excludeId = Some a"
      by blast
    from checkConflict_found[OF a] have "a \<in> set existing" by simp
    with that found[OF a] show False by blast
  qed
  have c1: "checkConflict [checkup] 1 monday ''10:15'' ''10:45'' None \<noteq> None"
    by code_simp
  have c2: "checkConflict [checkup] 1 monday ''10:30'' ''11:00'' None = None"
    by code_simp
  from iff found touching c1 c2 show ?thesis by blast
qed

theorem checkConflict_zeroPadded_witness:
  "zeroPadded (appointment.startTime checkup) \<and> zeroPadded (appointment.endTime checkup)
   \<and> zeroPadded ''10:15'' \<and> zeroPadded ''10:45'' \<and> zeroPadded ''10:30''
   \<and> zeroPadded ''11:00''
   \<and> specMinutesFromMidnight (appointment.startTime checkup) = 600
   \<and> specMinutesFromMidnight (appointment.endTime checkup) = 630
   \<and> specMinutesFromMidnight ''10:15'' = 615 \<and> specMinutesFromMidnight ''10:45'' = 645
   \<and> specMinutesFromMidnight ''10:30'' = 630
   \<and> checkConflict [checkup] 1 monday ''10:15'' ''10:45'' None \<noteq> None
   \<and> checkConflict [checkup] 1 monday ''10:30'' ''11:00'' None = None"
proof -
  have z: "zeroPadded (appointment.startTime checkup)"
    "zeroPadded (appointment.endTime checkup)"
    "zeroPadded ''10:15''" "zeroPadded ''10:45''" "zeroPadded ''10:30''" "zeroPadded ''11:00''"
    by code_simp+
  have m: "specMinutesFromMidnight (appointment.startTime checkup) = 600"
    "specMinutesFromMidnight (appointment.endTime checkup) = 630"
    "specMinutesFromMidnight ''10:15'' = 615" "specMinutesFromMidnight ''10:45'' = 645"
    "specMinutesFromMidnight ''10:30'' = 630"
    by (simp_all add: checkup_def digitNat_def)
  have stored: "\<forall>a \<in> set [checkup]. zeroPadded (appointment.startTime a)
                                      \<and> zeroPadded (appointment.endTime a)"
    using z by simp
  have ex: "\<exists>a \<in> set [checkup].
               appointment.dentist a = 1
             \<and> getTime (appointment.appointmentDate a) = getTime monday
             \<and> appointment.status a \<notin> {Cancelled, NoShow}
             \<and> (\<forall>x. (None :: objectId option) = Some x \<longrightarrow> oid a \<noteq> x)
             \<and> specMinutesFromMidnight (appointment.startTime a)
                 < specMinutesFromMidnight ''10:45''
             \<and> specMinutesFromMidnight (appointment.endTime a)
                 > specMinutesFromMidnight ''10:15''"
    using m by (simp add: checkup_def)
  have touch: "\<forall>a \<in> set [checkup].
               specMinutesFromMidnight (appointment.endTime a)
               = specMinutesFromMidnight ''10:30''
             \<or> specMinutesFromMidnight (appointment.startTime a)
               = specMinutesFromMidnight ''11:00''"
    using m by simp
  note overlap = checkConflict_zeroPadded[OF stored z(3) z(4), of 1 monday None]
  have c1: "checkConflict [checkup] 1 monday ''10:15'' ''10:45'' None \<noteq> None"
    using overlap[THEN conjunct1] ex by (rule iffD2)
  note apart = checkConflict_zeroPadded[OF stored z(5) z(6), of 1 monday None]
  have c2: "checkConflict [checkup] 1 monday ''10:30'' ''11:00'' None = None"
    using apart[THEN conjunct2, THEN conjunct2, THEN conjunct1] touch by (rule mp)
  from z m c1 c2 show ?thesis by (intro conjI)
qed

text \<open>
  The claim C2 as written is about the times and the date. The schema's pattern accepts
  a time without the leading zero, and the query compares the stored strings: the visit
  stored as 9:00 to 9:30 is found as a conflict of the candidate 09:30 to 9:45, which it
  only touches, and is not found for the candidate 09:15 to 09:45, which it overlaps. The
  query also matches the date as an instant: for a date on the same Monday at 10:00 the
  check-up is not found by the candidate 10:15 to 10:45.
\<close>

theorem checkConflict_unpadded_counterexample:
  "matchesTimePattern (appointment.startTime earlyVisit)
   \<and> matchesTimePattern (appointment.endTime earlyVisit)
   \<and> matchesTimePattern ''09:30'' \<and> matchesTimePattern ''9:45''
   \<and> specMinutesFromMidnight (appointment.endTime earlyVisit)
      = specMinutesFromMidnight ''09:30''
   \<and> checkConflict [earlyVisit] 1 monday ''09:30'' ''9:45'' None = Some earlyVisit
   \<and> specMinutesFromMidnight (appointment.startTime earlyVisit)
      < specMinutesFromMidnight ''09:45''
   \<and> specMinutesFromMidnight (appointment.endTime earlyVisit)
      > specMinutesFromMidnight ''09:15''
   \<and> checkConflict [earlyVisit] 1 monday ''09:15'' ''09:45'' None = None
   \<and> toISODate mondayAtTen = toISODate monday
   \<and> checkConflict [checkup] 1 mondayAtTen ''10:15'' ''10:45'' None = None"
  by (intro conjI; code_simp)

section \<open>Claims about the booking lifecycle\<close>

text \<open>
  C6. Cancelling an appointment whose status is cancelled or completed fails and leaves
  the store, and with it the appointment, its status and its cancellation record, as they
  were; for a caller who passes the ownership check the failure is the 400 response of an
  illegal transition ("already cancelled", "cannot cancel completed").
\<close>

theorem cancel_rejected:
  assumes found: "findById (appointments store) id' = Some a"
    and terminal: "appointment.status a = Cancelled \<or> appointment.status a = Completed"
  shows "snd (cancelAppointment clk req id' reason' refundAmount' store) = store
       \<and> findById (appointments (snd (cancelAppointment clk req id' reason' refundAmount' store)))
             id' = Some a
       \<and> (\<exists>message statusCode.
             fst (cancelAppointment clk req id' reason' refundAmount' store)
             = ErrorResponse message statusCode)
       \<and> (\<not> (patientOnly req \<and> notOwnAppointment req a) \<longrightarrow>
             fst (cancelAppointment clk req id' reason' refundAmount' store)
             = ErrorResponse (if appointment.status a = Cancelled
                              then ''Appointment is already cancelled''
                              else ''Cannot cancel completed appointment'') 400)"
  using found terminal
  by (auto simp: cancelAppointment_def errorResponse_def)

theorem cancel_rejected_witness:
  "findById (appointments cancelledClinic) 10 = Some (checkup\<lparr>appointment.status := Cancelled\<rparr>)
   \<and> \<not> (patientOnly staff \<and> notOwnAppointment staff (checkup\<lparr>appointment.status := Cancelled\<rparr>))
   \<and> cancelAppointment clinicClock staff 10 None None cancelledClinic
       = (ErrorResponse ''Appointment is already cancelled'' 400, cancelledClinic)"
proof -
  have h1: "findById (appointments cancelledClinic) 10
            = Some (checkup\<lparr>appointment.status := Cancelled\<rparr>)"
    by code_simp
  have h2: "appointment.status (checkup\<lparr>appointment.status := Cancelled\<rparr>) = Cancelled
            \<or> appointment.status (checkup\<lparr>appointment.status := Cancelled\<rparr>) = Completed"
    by simp
  have h3: "\<not> (patientOnly staff
                \<and> notOwnAppointment staff (checkup\<lparr>appointment.status := Cancelled\<rparr>))"
    by (simp add: staff_def)
  from cancel_rejected[OF h1 h2, of clinicClock staff None None] h3
  have "cancelAppointment clinicClock staff 10 None None cancelledClinic
        = (ErrorResponse ''Appointment is already cancelled'' 400, cancelledClinic)"
    by (simp add: prod_eq_iff)
  with h1 h3 show ?thesis by blast
qed

text \<open>
  C10. Once the appointment is found, the caller passes the ownership check, the status
  is neither cancelled nor completed and the new date is not in the past, a dentist
  reference that matches no record makes \<open>rescheduleAppointment\<close> end in the exception of a
  call on \<^verbatim>\<open>null\<close>, not in a not-found response, and the store is as it was.
\<close>

theorem reschedule_missing_dentist:
  assumes "findById (appointments store) id' = Some a"
    and "\<not> (patientOnly req \<and> notOwnAppointment req a)"
    and "appointment.status a \<noteq> Cancelled" and "appointment.status a \<noteq> Completed"
    and "\<not> getTime newDate < getTime (today clk)"
    and "findDentistById (dentists store) (appointment.dentist a) = None"
  shows "rescheduleAppointment clk req id' newDate newStartTime newEndTime reason' store
         = (ThrowsTypeError, store)
       \<and> ThrowsTypeError \<noteq> notFoundResponse ''Dentist''
       \<and> findById
            (appointments
               (snd (rescheduleAppointment clk req id' newDate newStartTime newEndTime reason'
                       store))) id' = Some a"
  using assms by (auto simp: rescheduleAppointment_def notFoundResponse_def)

theorem reschedule_missing_dentist_witness:
  "findById (appointments orphanClinic) 10 = Some checkup
   \<and> \<not> (patientOnly staff \<and> notOwnAppointment staff checkup)
   \<and> appointment.status checkup \<noteq> Cancelled \<and> appointment.status checkup \<noteq> Completed
   \<and> \<not> getTime monday < getTime (today clinicClock)
   \<and> findDentistById (dentists orphanClinic) (appointment.dentist checkup) = None
   \<and> rescheduleAppointment clinicClock staff 10 monday ''14:00'' ''14:30'' None orphanClinic
       = (ThrowsTypeError, orphanClinic)"
proof -
  have h1: "findById (appointments orphanClinic) 10 = Some checkup"
    by code_simp
  have h2: "\<not> (patientOnly staff \<and> notOwnAppointment staff checkup)"
    by (simp add: staff_def)
  have h3: "appointment.status checkup \<noteq> Cancelled" by (simp add: checkup_def)
  have h4: "appointment.status checkup \<noteq> Completed" by (simp add: checkup_def)
  have h5: "\<not> getTime monday < getTime (today clinicClock)"
    by (simp add: monday_def clinicClock_def newYearsDay_def)
  have h6: "findDentistById (dentists orphanClinic) (appointment.dentist checkup) = None"
    by (simp add: findDentistById_def orphanClinic_def)
  from reschedule_missing_dentist[OF h1 h2 h3 h4 h5 h6, of "''14:00''" "''14:30''" None]
    h1 h2 h3 h4 h5 h6
  show ?thesis by blast
qed

text \<open>
  C1, as the code has it. A successful reschedule of an appointment, which is then neither
  cancelled nor completed, overwrites the date, the start time and the end time with the
  new ones, records the original date and start time, the reason (trimmed, as the schema
  declares it), the actor and the time of the call in the rescheduling record, stores the
  document, and sets its status to \<open>Rescheduled\<close>.
\<close>

theorem reschedule_effect:
  assumes ok: "rescheduleAppointment clk req id' newDate newStartTime newEndTime reason' store
               = (SuccessResponse data message statusCode, store')"
  shows "\<exists>a a'. findById (appointments store) id' = Some a
           \<and> appointment.status a \<noteq> Cancelled \<and> appointment.status a \<noteq> Completed
           \<and> data = Some a'
           \<and> findById (appointments store') id' = Some a'
           \<and> appointment.appointmentDate a' = newDate
           \<and> appointment.startTime a' = newStartTime
           \<and> appointment.endTime a' = newEndTime
           \<and> appointment.rescheduling a'
               = Some \<lparr>originalDate = appointment.appointmentDate a,
                        originalTime = appointment.startTime a,
                        rescheduling.reason = map_option trim reason',
                        rescheduledBy = actorOf req, rescheduledAt = now clk\<rparr>
           \<and> appointment.status a' = Rescheduled"
proof -
  from ok obtain a where found: "findById (appointments store) id' = Some a"
    by (auto simp: rescheduleAppointment_def notFoundResponse_def split: option.splits)
  define b where
    "b = a\<lparr>appointment.rescheduling :=
               Some \<lparr>originalDate = appointment.appointmentDate a,
                      originalTime = appointment.startTime a,
                      rescheduling.reason = map_option trim reason',
                      rescheduledBy = actorOf req, rescheduledAt = now clk\<rparr>,
             appointment.appointmentDate := newDate,
             appointment.startTime := newStartTime,
             appointment.endTime := newEndTime,
             appointment.status := Rescheduled\<rparr>"
  define a' where "a' = calculateDuration b"
  from ok found have st: "appointment.status a \<noteq> Cancelled" "appointment.status a \<noteq> Completed"
    by (auto simp: rescheduleAppointment_def errorResponse_def split: if_splits)
  have saved: "reschedule clk store a newDate newStartTime newEndTime reason' (actorOf req)
               = save clk store b"
    by (simp add: reschedule_def b_def)
  from ok found st have valid: "validate b"
    by (auto simp: rescheduleAppointment_def errorResponse_def conflictResponse_def
          successResponse_def saved save_def
        split: if_splits option.splits)
  then have run: "save clk store b
                  = (Resolves a', store\<lparr>appointments := replaceDoc a' (appointments store)\<rparr>)"
    by (simp add: save_valid a'_def)
  from ok found st have res: "data = Some a'"
    and store': "store' = store\<lparr>appointments := replaceDoc a' (appointments store)\<rparr>"
    by (auto simp: rescheduleAppointment_def errorResponse_def conflictResponse_def
          successResponse_def saved run
        split: if_splits option.splits)
  have "oid a' = id'" using findById_oid[OF found] by (simp add: a'_def b_def)
  from findById_replaceDoc[OF found this]
  have stored: "findById (appointments store') id' = Some a'" by (simp add: store')
  have frame: "a'\<lparr>appointment.duration := appointment.duration b\<rparr> = b"
    unfolding a'_def by (rule calculateDuration_frame)
  have "appointment.appointmentDate a' = appointment.appointmentDate b"
    "appointment.startTime a' = appointment.startTime b"
    "appointment.endTime a' = appointment.endTime b"
    "appointment.rescheduling a' = appointment.rescheduling b"
    "appointment.status a' = appointment.status b"
    by (subst frame[symmetric], simp)+
  then have fields: "appointment.appointmentDate a' = newDate"
    "appointment.startTime a' = newStartTime"
    "appointment.endTime a' = newEndTime"
    "appointment.rescheduling a'
     = Some \<lparr>originalDate = appointment.appointmentDate a,
              originalTime = appointment.startTime a,
              rescheduling.reason = map_option trim reason',
              rescheduledBy = actorOf req, rescheduledAt = now clk\<rparr>"
    "appointment.status a' = Rescheduled"
    by (simp_all add: b_def)
  from found st res stored fields show ?thesis by blast
qed

theorem reschedule_effect_witness:
  "\<exists>a'. rescheduleAppointment clinicClock staff 10 monday ''14:00'' ''14:30''
           (Some ''  Swap  '') clinic
         = (SuccessResponse (Some a') ''Appointment rescheduled successfully'' 200,
            clinic\<lparr>appointments := [a']\<rparr>)
       \<and> appointment.startTime a' = ''14:00'' \<and> appointment.endTime a' = ''14:30''
       \<and> map_option rescheduling.reason (appointment.rescheduling a') = Some (Some ''Swap'')
       \<and> appointment.status a' = Rescheduled"
proof -
  define a' where
    "a' = checkup\<lparr>appointment.startTime := ''14:00'', appointment.endTime := ''14:30'',
                  appointment.status := Rescheduled,
                  appointment.rescheduling :=
                    Some \<lparr>originalDate = monday, originalTime = ''10:00'',
                           rescheduling.reason = Some ''Swap'', rescheduledBy = ByStaff,
                           rescheduledAt = now clinicClock\<rparr>\<rparr>"
  have run: "rescheduleAppointment clinicClock staff 10 monday ''14:00'' ''14:30''
               (Some ''  Swap  '') clinic
             = (SuccessResponse (Some a') ''Appointment rescheduled successfully'' 200,
                clinic\<lparr>appointments := [a']\<rparr>)"
    unfolding a'_def by code_simp
  have t: "trim ''  Swap  '' = ''Swap''" by code_simp
  from reschedule_effect[OF run] have "appointment.startTime a' = ''14:00''
       \<and> appointment.endTime a' = ''14:30''
       \<and> map_option rescheduling.reason (appointment.rescheduling a') = Some (Some ''Swap'')
       \<and> appointment.status a' = Rescheduled"
    by (auto simp: t)
  with run show ?thesis by blast
qed

text \<open>
  The claim C1 as written ends with the status \<open>Scheduled\<close>; on the check-up, moved to
  14:00 by a member of staff, the call succeeds and the status is \<open>Rescheduled\<close>.
\<close>

theorem reschedule_status_counterexample:
  "map_option appointment.status (findById (appointments clinic) 10) = Some Scheduled
   \<and> map_option appointment.status
        (responseData
           (fst (rescheduleAppointment clinicClock staff 10 monday ''14:00'' ''14:30'' None
                   clinic)))
      = Some Rescheduled
   \<and> map_option appointment.status
        (findById
           (appointments
              (snd (rescheduleAppointment clinicClock staff 10 monday ''14:00'' ''14:30'' None
                      clinic))) 10)
      \<noteq> Some Scheduled"
  by (intro conjI; code_simp)







text \<open>
  C4, as the code has it. For a general update of an appointment by a caller other than a
  patient, with the values the update does not supply taken from the appointment: if the
  update supplies a date, a start time or an end time, a conflict found by
  \<open>checkConflict\<close>, the appointment's own id excluded, rejects it; if it supplies a
  practitioner as well, a missing or inactive practitioner and a failing \<open>isAvailableAt\<close>
  reject it too; if the practitioner stays the same, \<open>isAvailableAt\<close> is not consulted,
  and without a conflict the update is applied when its values pass the validators of
  the schema and ends in a validation error when they do not. An update that supplies
  none of the date, the start time and the end time, an update of the practitioner alone
  among them, runs neither check: the validators alone decide. A rejected update leaves
  the store as it was.
\<close>

theorem update_revalidation:
  assumes found: "findById (appointments store) id' = Some a"
    and caller: "\<not> patientOnly req"
    and touches: "touches = (updates.appointmentDate u \<noteq> None
                              \<or> truthy (updates.startTime u) \<or> truthy (updates.endTime u))"
    and newDate: "newDate = (case updates.appointmentDate u of
                               Some v \<Rightarrow> v | None \<Rightarrow> appointment.appointmentDate a)"
    and newStartTime: "newStartTime = orElse (updates.startTime u) (appointment.startTime a)"
    and newEndTime: "newEndTime = orElse (updates.endTime u) (appointment.endTime a)"
    and dentistId: "dentistId = (case updates.dentist u of
                                   Some v \<Rightarrow> v | None \<Rightarrow> appointment.dentist a)"
    and applied: "applied
                  = (if validUpdates u
                     then (SuccessResponse (Some (applyUpdates u a))
                             ''Appointment updated successfully'' 200,
                           store\<lparr>appointments :=
                                   replaceDoc (applyUpdates u a) (appointments store)\<rparr>)
                     else (ThrowsValidationError, store))"
  shows "(touches
          \<and> checkConflict (appointments store) dentistId newDate newStartTime newEndTime
               (Some id') \<noteq> None
          \<longrightarrow> snd (updateAppointment req id' u store) = store
            \<and> (\<exists>message statusCode.
                  fst (updateAppointment req id' u store) = ErrorResponse message statusCode))
       \<and> (touches \<and> updates.dentist u \<noteq> None
            \<and> findDentistById (dentists store) dentistId = None
          \<longrightarrow> updateAppointment req id' u store
              = (ErrorResponse ''Selected dentist is not available'' 400, store))
       \<and> (\<forall>d. touches \<and> updates.dentist u \<noteq> None
              \<and> findDentistById (dentists store) dentistId = Some d
              \<and> dentistStatus d \<noteq> Active
          \<longrightarrow> updateAppointment req id' u store
              = (ErrorResponse ''Selected dentist is not available'' 400, store))
       \<and> (\<forall>d. touches \<and> updates.dentist u \<noteq> None
              \<and> findDentistById (dentists store) dentistId = Some d
              \<and> dentistStatus d = Active
              \<and> \<not> isAvailableAt d newDate newStartTime newEndTime
          \<longrightarrow> updateAppointment req id' u store
              = (ErrorResponse ''Dentist is not available at the requested time'' 409, store))
       \<and> (touches \<and> updates.dentist u = None
            \<and> checkConflict (appointments store) dentistId newDate newStartTime newEndTime
                 (Some id') = None
          \<longrightarrow> updateAppointment req id' u store = applied)
       \<and> (\<not> touches \<longrightarrow> updateAppointment req id' u store = applied)"
proof -
  have upd: "updateAppointment req id' u store
             = (case updateChecks store id' a u of Some r \<Rightarrow> (r, store) | None \<Rightarrow> applied)"
    using found caller
    by (simp add: updateAppointment_def findByIdAndUpdate_def successResponse_def applied
          split: option.split)
  have conflict: "touches
                  \<Longrightarrow> checkConflict (appointments store) dentistId newDate newStartTime
                        newEndTime (Some id') \<noteq> None
                  \<Longrightarrow> \<exists>message statusCode.
                        updateChecks store id' a u = Some (ErrorResponse message statusCode)"
    unfolding updateChecks_def Let_def newDate newStartTime newEndTime dentistId touches
    by (auto simp: errorResponse_def conflictResponse_def split: option.splits)
  have missing: "touches \<Longrightarrow> updates.dentist u \<noteq> None
                 \<Longrightarrow> findDentistById (dentists store) dentistId = None
                 \<Longrightarrow> updateChecks store id' a u
                     = Some (ErrorResponse ''Selected dentist is not available'' 400)"
    unfolding updateChecks_def Let_def newDate newStartTime newEndTime dentistId touches
    by (auto simp: errorResponse_def split: option.splits)
  have inactive: "touches \<Longrightarrow> updates.dentist u \<noteq> None
                  \<Longrightarrow> findDentistById (dentists store) dentistId = Some d
                  \<Longrightarrow> dentistStatus d \<noteq> Active
                  \<Longrightarrow> updateChecks store id' a u
                      = Some (ErrorResponse ''Selected dentist is not available'' 400)" for d
    unfolding updateChecks_def Let_def newDate newStartTime newEndTime dentistId touches
    by (auto simp: errorResponse_def split: option.splits)
  have unavailable: "touches \<Longrightarrow> updates.dentist u \<noteq> None
                  \<Longrightarrow> findDentistById (dentists store) dentistId = Some d
                  \<Longrightarrow> dentistStatus d = Active
                  \<Longrightarrow> \<not> isAvailableAt d newDate newStartTime newEndTime
                  \<Longrightarrow> updateChecks store id' a u
                      = Some (ErrorResponse
                                ''Dentist is not available at the requested time'' 409)" for d
    unfolding updateChecks_def Let_def newDate newStartTime newEndTime dentistId touches
    by (auto simp: errorResponse_def split: option.splits)
  have same: "touches \<Longrightarrow> updates.dentist u = None
              \<Longrightarrow> checkConflict (appointments store) dentistId newDate newStartTime newEndTime
                    (Some id') = None
              \<Longrightarrow> updateChecks store id' a u = None"
    unfolding updateChecks_def Let_def newDate newStartTime newEndTime dentistId touches
    by (auto split: option.splits)
  have untouched: "\<not> touches \<Longrightarrow> updateChecks store id' a u = None"
    unfolding updateChecks_def touches by simp
  show ?thesis
  proof (intro conjI impI allI)
    assume c: "touches
               \<and> checkConflict (appointments store) dentistId newDate newStartTime newEndTime
                    (Some id') \<noteq> None"
    from conflict[OF conjunct1[OF c] conjunct2[OF c]] obtain message statusCode
      where r: "updateChecks store id' a u = Some (ErrorResponse message statusCode)" by blast
    show "snd (updateAppointment req id' u store) = store" by (simp add: upd r)
    show "\<exists>message statusCode.
            fst (updateAppointment req id' u store) = ErrorResponse message statusCode"
      by (simp add: upd r)
  next
    assume "touches \<and> updates.dentist u \<noteq> None
            \<and> findDentistById (dentists store) dentistId = None"
    then show "updateAppointment req id' u store
               = (ErrorResponse ''Selected dentist is not available'' 400, store)"
      using missing by (simp add: upd)
  next
    fix d
    assume "touches \<and> updates.dentist u \<noteq> None
            \<and> findDentistById (dentists store) dentistId = Some d
            \<and> dentistStatus d \<noteq> Active"
    then show "updateAppointment req id' u store
               = (ErrorResponse ''Selected dentist is not available'' 400, store)"
      using inactive[of d] by (simp add: upd)
  next
    fix d
    assume "touches \<and> updates.dentist u \<noteq> None
            \<and> findDentistById (dentists store) dentistId = Some d
            \<and> dentistStatus d = Active \<and> \<not> isAvailableAt d newDate newStartTime newEndTime"
    then show "updateAppointment req id' u store
               = (ErrorResponse ''Dentist is not available at the requested time'' 409, store)"
      using unavailable[of d] by (simp add: upd)
  next
    assume "touches \<and> updates.dentist u = None
            \<and> checkConflict (appointments store) dentistId newDate newStartTime newEndTime
                 (Some id') = None"
    then show "updateAppointment req id' u store = applied"
      using same by (simp add: upd)
  next
    assume "\<not> touches"
    then show "updateAppointment req id' u store = applied"
      using untouched by (simp add: upd)
  qed
qed

theorem update_revalidation_witness:
  "findById (appointments clinic) 10 = Some checkup
   \<and> \<not> patientOnly staff
   \<and> truthy (updates.startTime afterHours)
   \<and> monday = (case updates.appointmentDate afterHours of
                  Some v \<Rightarrow> v | None \<Rightarrow> appointment.appointmentDate checkup)
   \<and> ''18:00'' = orElse (updates.startTime afterHours) (appointment.startTime checkup)
   \<and> ''18:30'' = orElse (updates.endTime afterHours) (appointment.endTime checkup)
   \<and> 1 = (case updates.dentist afterHours of
             Some v \<Rightarrow> v | None \<Rightarrow> appointment.dentist checkup)
   \<and> validUpdates afterHours
   \<and> updates.dentist afterHours = None
   \<and> checkConflict (appointments clinic) 1 monday ''18:00'' ''18:30'' (Some 10) = None
   \<and> updateAppointment staff 10 afterHours clinic
      = (SuccessResponse (Some (applyUpdates afterHours checkup))
           ''Appointment updated successfully'' 200,
         clinic\<lparr>appointments := replaceDoc (applyUpdates afterHours checkup)
                                    (appointments clinic)\<rparr>)"
proof -
  have h1: "findById (appointments clinic) 10 = Some checkup" by code_simp
  have h2: "\<not> patientOnly staff" by (simp add: staff_def)
  have t: "truthy (updates.startTime afterHours)" by code_simp
  then have h3: "True = (updates.appointmentDate afterHours \<noteq> None
                         \<or> truthy (updates.startTime afterHours)
                         \<or> truthy (updates.endTime afterHours))"
    by simp
  have h4: "monday = (case updates.appointmentDate afterHours of
                        Some v \<Rightarrow> v | None \<Rightarrow> appointment.appointmentDate checkup)"
    by (simp add: afterHours_def noUpdates_def checkup_def)
  have h5: "''18:00'' = orElse (updates.startTime afterHours) (appointment.startTime checkup)"
    by (simp add: afterHours_def noUpdates_def orElse_def)
  have h6: "''18:30'' = orElse (updates.endTime afterHours) (appointment.endTime checkup)"
    by (simp add: afterHours_def noUpdates_def orElse_def)
  have h7: "1 = (case updates.dentist afterHours of
                   Some v \<Rightarrow> v | None \<Rightarrow> appointment.dentist checkup)"
    by (simp add: afterHours_def noUpdates_def checkup_def)
  have v: "validUpdates afterHours" by code_simp
  have h8: "(SuccessResponse (Some (applyUpdates afterHours checkup))
               ''Appointment updated successfully'' 200,
             clinic\<lparr>appointments := replaceDoc (applyUpdates afterHours checkup)
                                        (appointments clinic)\<rparr>)
            = (if validUpdates afterHours
               then (SuccessResponse (Some (applyUpdates afterHours checkup))
                       ''Appointment updated successfully'' 200,
                     clinic\<lparr>appointments := replaceDoc (applyUpdates afterHours checkup)
                                                (appointments clinic)\<rparr>)
               else (ThrowsValidationError, clinic))"
    using v by simp
  have n: "updates.dentist afterHours = None" by (simp add: afterHours_def noUpdates_def)
  have c: "checkConflict (appointments clinic) 1 monday ''18:00'' ''18:30'' (Some 10) = None"
    by code_simp
  note rules = update_revalidation[OF h1 h2 h3 h4 h5 h6 h7 h8]
  have r: "updateAppointment staff 10 afterHours clinic
      = (SuccessResponse (Some (applyUpdates afterHours checkup))
           ''Appointment updated successfully'' 200,
         clinic\<lparr>appointments := replaceDoc (applyUpdates afterHours checkup)
                                    (appointments clinic)\<rparr>)"
    using rules[THEN conjunct2, THEN conjunct2, THEN conjunct2, THEN conjunct2, THEN conjunct1]
      n c by simp
  from h1 h2 t h4 h5 h6 h7 v n c r show ?thesis by (intro conjI)
qed

text \<open>
  The claim C4 as written has an update that touches the times or the practitioner
  rejected when the availability check fails, as a reschedule is. The first dentist
  closes at 17:00: the reschedule of the check-up to 18:00 is rejected, the general update
  to 18:00 succeeds and is stored. The second dentist does not work on Mondays: the
  update that hands the Monday check-up to the second dentist, and supplies no date or
  time, succeeds and is stored.
\<close>

theorem update_availability_counterexample:
  "\<not> isAvailableAt drSmith monday ''18:00'' ''18:30''
   \<and> fst (rescheduleAppointment clinicClock staff 10 monday ''18:00'' ''18:30'' None clinic)
      = ErrorResponse ''Dentist is not available at the requested time'' 409
   \<and> fst (updateAppointment staff 10 afterHours clinic)
      = SuccessResponse
          (Some (checkup\<lparr>appointment.startTime := ''18:00'', appointment.endTime := ''18:30''\<rparr>))
          ''Appointment updated successfully'' 200
   \<and> findById (appointments (snd (updateAppointment staff 10 afterHours clinic))) 10
      = Some (checkup\<lparr>appointment.startTime := ''18:00'', appointment.endTime := ''18:30''\<rparr>)
   \<and> findDentistById (dentists clinic) 2 = Some drJones
   \<and> \<not> isAvailableAt drJones monday ''10:00'' ''10:30''
   \<and> fst (updateAppointment staff 10 toDrJones clinic)
      = SuccessResponse (Some (checkup\<lparr>appointment.dentist := 2\<rparr>))
          ''Appointment updated successfully'' 200
   \<and> findById (appointments (snd (updateAppointment staff 10 toDrJones clinic))) 10
      = Some (checkup\<lparr>appointment.dentist := 2\<rparr>)"
  by (intro conjI; code_simp)

end
